theory Spec2Isabelle
  imports Main "HOL-Library.Char_ord" "HOL-Library.List_Lexorder" "HOL-Library.Monad_Syntax"
begin

section \<open>Strings\<close>

text \<open>
  Python strings are modelled as \<open>string\<close> (lists of characters), compared in the
  lexicographic order of their character codes as Python compares \<open>str\<close>. The text is
  taken to be ASCII: \<open>isspace\<close> is what \<open>str.strip\<close> and the pattern \<open>\s\<close> accept
  there, \<open>isword\<close> is the pattern \<open>\w\<close>, \<open>isdigit\<close> is \<open>\d\<close>, and \<open>lower\<close> is
  \<open>str.lower\<close>.
\<close>

abbreviation dq :: char where
  "dq \<equiv> CHR 0x22"

definition isspace :: "char \<Rightarrow> bool" where
  "isspace c = (c \<in> set [CHR 0x09, CHR 0x0A, CHR 0x0B, CHR 0x0C, CHR 0x0D,
                           CHR 0x1C, CHR 0x1D, CHR 0x1E, CHR 0x1F, CHR 0x20])"

definition isdigit :: "char \<Rightarrow> bool" where
  "isdigit c = (CHR ''0'' \<le> c \<and> c \<le> CHR ''9'')"

definition isword :: "char \<Rightarrow> bool" where
  "isword c = ((CHR ''a'' \<le> c \<and> c \<le> CHR ''z'') \<or> (CHR ''A'' \<le> c \<and> c \<le> CHR ''Z'')
               \<or> isdigit c \<or> c = CHR ''_'')"

definition lower_char :: "char \<Rightarrow> char" where
  "lower_char c =
     (if CHR ''A'' \<le> c \<and> c \<le> CHR ''Z''
      then (case c of Char b0 b1 b2 b3 b4 b5 b6 b7 \<Rightarrow> Char b0 b1 b2 b3 b4 True b6 b7)
      else c)"

definition lower :: "string \<Rightarrow> string" where
  "lower s = map lower_char s"

definition lstrip :: "string \<Rightarrow> string" where
  "lstrip s = dropWhile isspace s"

definition strip :: "string \<Rightarrow> string" where
  "strip s = rev (dropWhile isspace (rev (dropWhile isspace s)))"

definition startswith :: "string \<Rightarrow> string \<Rightarrow> bool" where
  "startswith s p = (take (length p) s = p)"

text \<open>\<open>contains sub s\<close> is Python's \<open>sub in s\<close>.\<close>

fun contains :: "string \<Rightarrow> string \<Rightarrow> bool" where
  "contains sub [] = (sub = [])"
| "contains sub (c # cs) = (startswith (c # cs) sub \<or> contains sub cs)"

text \<open>\<open>join sep xs\<close> is \<open>sep.join(xs)\<close>.\<close>

fun join :: "string \<Rightarrow> string list \<Rightarrow> string" where
  "join sep [] = []"
| "join sep [x] = x"
| "join sep (x # y # ys) = x @ sep @ join sep (y # ys)"

text \<open>
  \<open>split sep s\<close> is \<open>s.split(sep)\<close> for a non-empty separator (every call of the
  source passes a literal one): the pieces between the non-overlapping occurrences of
  \<open>sep\<close>, found from the left.
\<close>

fun find_from :: "string \<Rightarrow> string \<Rightarrow> nat option" where
  "find_from sep [] = (if sep = [] then Some 0 else None)"
| "find_from sep (c # cs) =
     (if startswith (c # cs) sep then Some 0
      else map_option Suc (find_from sep cs))"

function split :: "string \<Rightarrow> string \<Rightarrow> string list" where
  "split sep s =
     (if sep = [] \<or> s = [] then [s]
      else (case find_from sep s of
              None \<Rightarrow> [s]
            | Some i \<Rightarrow> take i s # split sep (drop (i + length sep) s)))"
  by pat_completeness auto
termination
  by (relation "measure (\<lambda>(sep, s). length s)") auto

text \<open>
  \<open>replace old new s\<close> is \<open>s.replace(old, new)\<close>: every non-overlapping occurrence of
  \<open>old\<close>, from the left, becomes \<open>new\<close>. For the empty \<open>old\<close> Python puts \<open>new\<close>
  around every character.
\<close>

function replace :: "string \<Rightarrow> string \<Rightarrow> string \<Rightarrow> string" where
  "replace old new s =
     (if old = [] then new @ concat (map (\<lambda>c. c # new) s)
      else if s = [] then []
      else if startswith s old then new @ replace old new (drop (length old) s)
      else hd s # replace old new (tl s))"
  by pat_completeness auto
termination
  by (relation "measure (\<lambda>(old, new, s). length s)") auto

text \<open>\<open>int(digits)\<close> on a string of decimal digits.\<close>

definition digit_val :: "char \<Rightarrow> nat" where
  "digit_val c = of_char c - of_char CHR ''0''"

definition int_of_digits :: "string \<Rightarrow> nat" where
  "int_of_digits ds = foldl (\<lambda>n c. 10 * n + digit_val c) 0 ds"

subsection \<open>The regular-expression pieces the source matches with\<close>

text \<open>
  \<open>re.match\<close> anchors at the start of the text only. Each piece below takes the text
  still to be matched and returns what it captured with the rest, or \<open>None\<close>. In the
  patterns of the source every greedy piece is followed by a character it cannot itself
  match, and no alternative of a group is a prefix of another one, so the leftmost
  greedy choice below is the only match there is.
\<close>

definition match_ws1 :: "string \<Rightarrow> string option" where
  \<comment> \<open>\<open>\s+\<close>\<close>
  "match_ws1 s = (if takeWhile isspace s = [] then None else Some (dropWhile isspace s))"

definition match_ws0 :: "string \<Rightarrow> string option" where
  \<comment> \<open>\<open>\s*\<close>\<close>
  "match_ws0 s = Some (dropWhile isspace s)"

definition match_word :: "string \<Rightarrow> (string \<times> string) option" where
  \<comment> \<open>\<open>(\w+)\<close>\<close>
  "match_word s =
     (if takeWhile isword s = [] then None else Some (takeWhile isword s, dropWhile isword s))"

definition match_digits :: "string \<Rightarrow> (string \<times> string) option" where
  \<comment> \<open>\<open>(\d+)\<close>\<close>
  "match_digits s =
     (if takeWhile isdigit s = [] then None else Some (takeWhile isdigit s, dropWhile isdigit s))"

definition match_lit :: "string \<Rightarrow> string \<Rightarrow> string option" where
  \<comment> \<open>a literal, case-sensitively\<close>
  "match_lit lit s = (if startswith s lit then Some (drop (length lit) s) else None)"

definition match_lit_ci :: "string \<Rightarrow> string \<Rightarrow> (string \<times> string) option" where
  \<comment> \<open>a literal under \<open>re.IGNORECASE\<close>; the capture keeps the case of the text\<close>
  "match_lit_ci lit s =
     (if lower (take (length lit) s) = lower lit
      then Some (take (length lit) s, drop (length lit) s) else None)"

fun match_alt_ci :: "string list \<Rightarrow> string \<Rightarrow> (string \<times> string) option" where
  \<comment> \<open>a group of literal alternatives \<open>(a|b|c)\<close> under \<open>re.IGNORECASE\<close>\<close>
  "match_alt_ci [] s = None"
| "match_alt_ci (a # as) s =
     (case match_lit_ci a s of Some r \<Rightarrow> Some r | None \<Rightarrow> match_alt_ci as s)"

definition match_until :: "char \<Rightarrow> string \<Rightarrow> (string \<times> string) option" where
  \<comment> \<open>\<open>([^c]+)c\<close>: a non-empty run of characters other than \<open>c\<close>, then \<open>c\<close>\<close>
  "match_until c s =
     (if takeWhile (\<lambda>x. x \<noteq> c) s = [] then None
      else (case dropWhile (\<lambda>x. x \<noteq> c) s of
              [] \<Rightarrow> None
            | _ # r \<Rightarrow> Some (takeWhile (\<lambda>x. x \<noteq> c) s, r)))"

definition match_quoted :: "string \<Rightarrow> (string \<times> string) option" where
  \<comment> \<open>\<open>"([^"]+)"\<close>\<close>
  "match_quoted s = do { r \<leftarrow> match_lit [dq] s; match_until dq r }"

definition match_bracketed :: "string \<Rightarrow> (string \<times> string) option" where
  \<comment> \<open>\<open>\[([^\]]+)\]\<close>\<close>
  "match_bracketed s = do { r \<leftarrow> match_lit ''['' s; match_until CHR '']'' r }"

section \<open>Data model\<close>

text \<open>
  The dataclasses of the source. The \<open>type\<close> and \<open>operator\<close> fields are strings in
  the source and stay strings here; \<open>Optional[str]\<close> is \<open>string option\<close>.
\<close>

record Condition =
  c_type :: string
  c_operator :: string
  c_value :: string
  c_guid :: "string option"
  c_is_negated :: bool

record Action =
  a_type :: string
  a_value :: "string option"
  a_is_or :: bool

record PolicyPath =
  p_conditions :: "Condition list"
  p_actions :: "Action list"
  p_state :: string

record Variable =
  v_name :: string
  v_display_name :: string
  v_guid :: string

datatype PolicyBranch =
  PolicyBranch (b_conditions: "Condition list") (b_actions: "Action list")
               (b_state: string) (b_nested_if: "IfStatement option")
and IfStatement =
  IfStatement (if_branch: PolicyBranch) (else_if_branches: "PolicyBranch list")
              (else_branch: "PolicyBranch option")

text \<open>The constructors with the defaults of the dataclasses.\<close>

definition mkCondition :: "string \<Rightarrow> string \<Rightarrow> string \<Rightarrow> string option \<Rightarrow> bool \<Rightarrow> Condition" where
  "mkCondition t op v g n =
     \<lparr>c_type = t, c_operator = op, c_value = v, c_guid = g, c_is_negated = n\<rparr>"

definition mkAction :: "string \<Rightarrow> string option \<Rightarrow> bool \<Rightarrow> Action" where
  "mkAction t v alt = \<lparr>a_type = t, a_value = v, a_is_or = alt\<rparr>"

definition empty_branch :: PolicyBranch where
  "empty_branch = PolicyBranch [] [] ''enabled'' None"

text \<open>Python's truth value of an \<open>Optional[str]\<close>: neither \<open>None\<close> nor empty.\<close>

definition truthy :: "string option \<Rightarrow> bool" where
  "truthy v = (case v of None \<Rightarrow> False | Some s \<Rightarrow> s \<noteq> [])"

section \<open>PolicyPath.get_action_signature\<close>

text \<open>One round of the loop over the actions, on the two lists it fills.\<close>

definition sig_step :: "Action \<Rightarrow> string list \<times> string list \<Rightarrow> string list \<times> string list" where
  "sig_step a acc =
     (case acc of (grant_controls, session_controls) \<Rightarrow>
        if a_type a = ''REQUIRE'' then
          (if truthy (a_value a) then (grant_controls @ [the (a_value a)], session_controls)
           else acc)
        else if a_type a = ''SESSION'' then
          (if truthy (a_value a) then (grant_controls, session_controls @ [the (a_value a)])
           else acc)
        else acc)"

definition get_action_signature :: "PolicyPath \<Rightarrow> string" where
  "get_action_signature p =
     (if list_ex (\<lambda>a. a_type a = ''BLOCK'') (p_actions p) then ''BLOCK''
      else
        (case fold sig_step (p_actions p) ([], []) of (gc, sc) \<Rightarrow>
           let grant_controls = sort gc;
               session_controls = sort sc;
               grant_sig = (if grant_controls \<noteq> [] then join '','' grant_controls else ''ALLOW'');
               session_sig = (if session_controls \<noteq> [] then join '','' session_controls else [])
           in if session_sig \<noteq> [] then ''GRANT:'' @ grant_sig @ ''|SESSION:'' @ session_sig
              else ''GRANT:'' @ grant_sig))"

section \<open>CAPLParser._parse_action\<close>

definition parse_action :: "string \<Rightarrow> Action" where
  "parse_action text =
     (if startswith text ''REQUIRE '' then
        (let action_text = strip (drop 8 text) in
         if contains '' OR '' action_text
         then mkAction ''REQUIRE'' (Some (join ''|'' (split '' OR '' action_text))) True
         else mkAction ''REQUIRE'' (Some action_text) False)
      else if text = ''BLOCK'' then mkAction ''BLOCK'' None False
      else if text = ''ALLOW'' then mkAction ''ALLOW'' None False
      else if startswith text ''SESSION '' then mkAction ''SESSION'' (Some (strip (drop 8 text))) False
      else mkAction ''UNKNOWN'' (Some text) False)"

section \<open>PolicyOptimizer\<close>

text \<open>
  A Python \<open>dict\<close> whose iteration order matters (\<open>defaultdict(list)\<close> first of all) is
  an association list in insertion order: a new key goes to the end, an existing key
  keeps its place.
\<close>

fun dict_append :: "('k \<times> 'v list) list \<Rightarrow> 'k \<Rightarrow> 'v \<Rightarrow> ('k \<times> 'v list) list" where
  \<comment> \<open>\<open>d[k].append(v)\<close> on a \<open>defaultdict(list)\<close>\<close>
  "dict_append [] k v = [(k, [v])]"
| "dict_append ((k', vs) # d) k v =
     (if k' = k then (k', vs @ [v]) # d else (k', vs) # dict_append d k v)"

fun dict_set :: "('k \<times> 'v) list \<Rightarrow> 'k \<Rightarrow> 'v \<Rightarrow> ('k \<times> 'v) list" where
  \<comment> \<open>\<open>d[k] = v\<close>\<close>
  "dict_set [] k v = [(k, v)]"
| "dict_set ((k', v') # d) k v =
     (if k' = k then (k', v) # d else (k', v') # dict_set d k v)"

subsection \<open>Grant controls\<close>

definition map_grant_control :: "string \<Rightarrow> string" where
  "map_grant_control control =
     (case map_of [(''MFA'', ''mfa''),
                   (''CompliantDevice'', ''compliantDevice''),
                   (''HybridJoined'', ''domainJoinedDevice''),
                   (''ApprovedApp'', ''approvedApplication''),
                   (''AppProtection'', ''compliantApplication''),
                   (''PasswordChange'', ''passwordChange'')] control of
        Some v \<Rightarrow> v
      | None \<Rightarrow> lower control)"

record GrantControls =
  Operator :: string
  BuiltInControls :: "string list"

text \<open>
  The loop that removes duplicates and keeps the first occurrence of each control; the
  set \<open>seen\<close> of the source always holds the members of \<open>unique_controls\<close>.
\<close>

definition unique_step :: "string \<Rightarrow> string set \<times> string list \<Rightarrow> string set \<times> string list" where
  "unique_step ctrl acc =
     (case acc of (seen, unique_controls) \<Rightarrow>
        if ctrl \<notin> seen then (insert ctrl seen, unique_controls @ [ctrl]) else acc)"

definition grant_step :: "Action \<Rightarrow> string list \<Rightarrow> string list" where
  "grant_step action built_in_controls =
     (case a_value action of
        None \<Rightarrow> built_in_controls
      | Some v \<Rightarrow>
          if a_is_or action then built_in_controls @ map map_grant_control (split ''|'' v)
          else built_in_controls @ [map_grant_control v])"

text \<open>The result \<open>None\<close> is the empty dictionary \<open>{}\<close>.\<close>

definition build_grant_controls :: "Action list \<Rightarrow> GrantControls option" where
  "build_grant_controls actions =
     (let grant_actions = filter (\<lambda>a. a_type a = ''REQUIRE'') actions;
          block_actions = filter (\<lambda>a. a_type a = ''BLOCK'') actions;
          allow_actions = filter (\<lambda>a. a_type a = ''ALLOW'') actions
      in if block_actions \<noteq> [] then
           Some \<lparr>Operator = ''OR'', BuiltInControls = [''block'']\<rparr>
         else if grant_actions = [] \<and> allow_actions = [] then None
         else
           (let built_in_controls = fold grant_step grant_actions []
            in if built_in_controls = [] then None
               else
                 Some \<lparr>Operator = (if list_ex a_is_or grant_actions then ''OR'' else ''AND''),
                       BuiltInControls = snd (fold unique_step built_in_controls ({}, []))\<rparr>))"

subsection \<open>Session controls\<close>

text \<open>
  The dictionary of session controls has at most four keys; a field is \<open>None\<close> (or
  \<open>False\<close> for the two entries whose value is a constant) when the key is absent.
  \<open>SignInFrequency\<close> holds \<open>Value\<close> and \<open>Type\<close>, \<open>PersistentBrowser\<close> holds \<open>Mode\<close>;
  \<open>IsEnabled\<close> is \<open>True\<close> in every entry.
\<close>

record SessionControls =
  SignInFrequency :: "(nat \<times> string) option"
  PersistentBrowser :: "string option"
  CloudAppSecurity :: bool
  ApplicationEnforcedRestrictions :: bool

definition no_session_controls :: SessionControls where
  "no_session_controls =
     \<lparr>SignInFrequency = None, PersistentBrowser = None,
      CloudAppSecurity = False, ApplicationEnforcedRestrictions = False\<rparr>"

definition re_signin_frequency :: "string \<Rightarrow> (string \<times> string) option" where
  \<comment> \<open>\<open>signin-frequency\s+(\d+)\s+(hours?|days?)\<close>, ignoring case\<close>
  "re_signin_frequency s = do {
     (_, r) \<leftarrow> match_lit_ci ''signin-frequency'' s;
     r \<leftarrow> match_ws1 r;
     (num, r) \<leftarrow> match_digits r;
     r \<leftarrow> match_ws1 r;
     (unit, _) \<leftarrow> match_alt_ci [''hours'', ''hour'', ''days'', ''day''] r;
     Some (num, unit) }"

definition re_persistent_browser :: "string \<Rightarrow> string option" where
  \<comment> \<open>\<open>persistent-browser\s+(always|never)\<close>, ignoring case\<close>
  "re_persistent_browser s = do {
     (_, r) \<leftarrow> match_lit_ci ''persistent-browser'' s;
     r \<leftarrow> match_ws1 r;
     (mode, _) \<leftarrow> match_alt_ci [''always'', ''never''] r;
     Some mode }"

definition session_step :: "Action \<Rightarrow> SessionControls \<Rightarrow> SessionControls" where
  "session_step action session_controls =
     (if \<not> truthy (a_value action) then session_controls
      else
        (let v = strip (the (a_value action)) in
         case re_signin_frequency v of
           Some (num, unit) \<Rightarrow>
             session_controls\<lparr>SignInFrequency :=
               Some (int_of_digits num,
                     if contains ''hour'' (lower unit) then ''hours'' else ''days'')\<rparr>
         | None \<Rightarrow>
            (case re_persistent_browser v of
               Some mode \<Rightarrow> session_controls\<lparr>PersistentBrowser := Some (lower mode)\<rparr>
             | None \<Rightarrow>
                 if contains ''monitor'' (lower v) \<and> contains ''cloudappsecurity'' (lower v)
                 then session_controls\<lparr>CloudAppSecurity := True\<rparr>
                 else if contains ''block-downloads'' (lower v)
                 then session_controls\<lparr>ApplicationEnforcedRestrictions := True\<rparr>
                 else session_controls)))"

definition build_session_controls :: "Action list \<Rightarrow> SessionControls" where
  "build_session_controls actions =
     (let session_actions = filter (\<lambda>a. a_type a = ''SESSION'') actions
      in if session_actions = [] then no_session_controls
         else fold session_step session_actions no_session_controls)"

subsection \<open>Conditions\<close>

text \<open>
  A Python \<open>set\<close> of strings is a HOL set. Its size and its sorted list do not depend
  on the order in which Python iterates over it, but \<open>list(s)\<close> and \<open>for x in s\<close> do:
  CPython derives that order from the hashes of the strings, which it salts anew in
  every interpreter process. The functions that iterate over a set therefore take the
  iteration order as their first argument \<open>order\<close>, a function from the set to the
  list of its members.
\<close>

definition map_client_types :: "(string set \<Rightarrow> string list) \<Rightarrow> string list \<Rightarrow> string list" where
  "map_client_types order client_values =
     order (set (map (\<lambda>c. case map_of [(''Browser'', ''browser''),
                                         (''MobileApp'', ''mobileAppsAndDesktopClients''),
                                         (''DesktopApp'', ''mobileAppsAndDesktopClients''),
                                         (''ExchangeActiveSync'', ''exchangeActiveSync''),
                                         (''Other'', ''other'')] c of
                             Some v \<Rightarrow> v
                           | None \<Rightarrow> lower c) client_values))"

text \<open>
  The dictionary of conditions. Every list the source stores under a key is non-empty
  when the key is there, and the last step of the source deletes the sections that are
  empty; so an empty list (or \<open>False\<close>) stands for an absent key, and a section all of
  whose fields are empty for an absent section. The sections \<open>Applications\<close> and
  \<open>Platforms\<close> hold one key each, \<open>IncludeApplications\<close> and \<open>IncludePlatforms\<close>, and
  are given by that key. Two dictionaries are equal in Python whatever the order of
  their keys, so a record of fields loses nothing of the comparison of two results.
\<close>

record UsersSection =
  IncludeUsers :: "string list"
  IncludeGuestOrExternalUserTypes :: "string list"
  ExcludeGroups :: "string option list"
  IncludeGroups :: "string option list"
  IncludeRoles :: "string option list"

record LocationsSection =
  IncludeLocations :: "string list"
  ExcludeLocations :: "string list"

record DeviceStatesSection =
  CompliantDevice :: bool
  DomainJoinedDevice :: bool

record ConditionsDict =
  Users :: UsersSection
  IncludeApplications :: "string list"
  IncludePlatforms :: "string list"
  Locations :: LocationsSection
  ClientAppTypes :: "string list"
  DeviceStates :: DeviceStatesSection
  SignInRiskLevels :: "string list"
  UserRiskLevels :: "string list"

definition empty_conditions :: ConditionsDict where
  "empty_conditions =
     \<lparr>Users = \<lparr>IncludeUsers = [], IncludeGuestOrExternalUserTypes = [],
                ExcludeGroups = [], IncludeGroups = [], IncludeRoles = []\<rparr>,
      IncludeApplications = [], IncludePlatforms = [],
      Locations = \<lparr>IncludeLocations = [], ExcludeLocations = []\<rparr>,
      ClientAppTypes = [],
      DeviceStates = \<lparr>CompliantDevice = False, DomainJoinedDevice = False\<rparr>,
      SignInRiskLevels = [], UserRiskLevels = []\<rparr>"

definition cond_step :: "(string set \<Rightarrow> string list) \<Rightarrow> Condition \<Rightarrow> ConditionsDict \<Rightarrow> ConditionsDict" where
  "cond_step order cond d =
     (if c_type cond = ''user'' then
        (if c_value cond = ''All'' then d\<lparr>Users := (Users d)\<lparr>IncludeUsers := [''All'']\<rparr>\<rparr>
         else if c_value cond = ''Guest'' then
           d\<lparr>Users := (Users d)\<lparr>IncludeGuestOrExternalUserTypes :=
                                    [''internalGuest'', ''b2bCollaborationGuest'']\<rparr>\<rparr>
         else d)
      else if c_type cond = ''user-group'' then
        (if c_is_negated cond
         then d\<lparr>Users := (Users d)\<lparr>ExcludeGroups := ExcludeGroups (Users d) @ [c_guid cond]\<rparr>\<rparr>
         else d\<lparr>Users := (Users d)\<lparr>IncludeGroups := IncludeGroups (Users d) @ [c_guid cond]\<rparr>\<rparr>)
      else if c_type cond = ''user-role'' then
        d\<lparr>Users := (Users d)\<lparr>IncludeRoles := IncludeRoles (Users d) @ [c_guid cond]\<rparr>\<rparr>
      else if c_type cond = ''app'' then
        (if c_value cond = ''All'' then d\<lparr>IncludeApplications := [''All'']\<rparr>
         else if c_value cond = ''Office365'' then d\<lparr>IncludeApplications := [''Office365'']\<rparr>
         else if truthy (c_guid cond)
         then d\<lparr>IncludeApplications := IncludeApplications d @ [the (c_guid cond)]\<rparr>
         else d)
      else if c_type cond = ''platform'' then
        (if c_operator cond = ''is-or'' then d\<lparr>IncludePlatforms := split ''|'' (c_value cond)\<rparr>
         else d\<lparr>IncludePlatforms := IncludePlatforms d @ [c_value cond]\<rparr>)
      else if c_type cond = ''device'' then
        (if c_value cond = ''Compliant''
         then d\<lparr>DeviceStates := (DeviceStates d)\<lparr>CompliantDevice := True\<rparr>\<rparr>
         else if c_value cond = ''HybridJoined''
         then d\<lparr>DeviceStates := (DeviceStates d)\<lparr>DomainJoinedDevice := True\<rparr>\<rparr>
         else d)
      else if c_type cond = ''location'' then
        (if c_value cond = ''Trusted'' then
           (if c_is_negated cond
            then d\<lparr>Locations := (Locations d)\<lparr>ExcludeLocations := [''AllTrusted'']\<rparr>\<rparr>
            else d\<lparr>Locations := (Locations d)\<lparr>IncludeLocations := [''AllTrusted'']\<rparr>\<rparr>)
         else if c_value cond = ''All''
         then d\<lparr>Locations := (Locations d)\<lparr>IncludeLocations := [''All'']\<rparr>\<rparr>
         else if truthy (c_guid cond)
         then d\<lparr>Locations := (Locations d)\<lparr>IncludeLocations :=
                                   IncludeLocations (Locations d) @ [the (c_guid cond)]\<rparr>\<rparr>
         else d)
      else if c_type cond = ''client'' then
        (if c_operator cond = ''is-or''
         then d\<lparr>ClientAppTypes := map_client_types order (split ''|'' (c_value cond))\<rparr>
         else d\<lparr>ClientAppTypes := map_client_types order [c_value cond]\<rparr>)
      else if c_type cond = ''signin-risk'' then
        d\<lparr>SignInRiskLevels := SignInRiskLevels d @ [lower (c_value cond)]\<rparr>
      else if c_type cond = ''user-risk'' then
        d\<lparr>UserRiskLevels := UserRiskLevels d @ [lower (c_value cond)]\<rparr>
      else d)"

definition build_conditions_dict :: "(string set \<Rightarrow> string list) \<Rightarrow> Condition list \<Rightarrow> ConditionsDict" where
  "build_conditions_dict order conditions = fold (cond_step order) conditions empty_conditions"

subsection \<open>Records, merging and clustering\<close>

text \<open>
  The emitted record. \<open>GrantControls\<close> and \<open>SessionControls\<close> are \<open>None\<close> when the
  source deletes the key because its value is empty.
\<close>

record Policy =
  DisplayName :: string
  State :: string
  Conditions :: ConditionsDict
  GrantControls :: "GrantControls option"
  SessionControls :: "SessionControls option"

definition digit_char :: "nat \<Rightarrow> char" where
  "digit_char d = ''0123456789'' ! d"

function str_of_nat :: "nat \<Rightarrow> string" where
  \<comment> \<open>the decimal numeral an f-string prints\<close>
  "str_of_nat n =
     (if n < 10 then [digit_char n] else str_of_nat (n div 10) @ [digit_char (n mod 10)])"
  by pat_completeness auto
termination
  by (relation "measure id") auto

text \<open>
  \<open>self.policy_counter\<close> is passed in and returned: \<open>create_policy\<close> gives the record
  and the counter after it.
\<close>

definition create_policy ::
  "(string set \<Rightarrow> string list) \<Rightarrow> nat \<Rightarrow> Condition list \<Rightarrow> Action list \<Rightarrow> string \<Rightarrow> Policy \<times> nat" where
  "create_policy order policy_counter conditions actions state =
     (let policy_name = ''Generated-Policy-'' @ str_of_nat policy_counter;
          sc = build_session_controls actions
      in (\<lparr>DisplayName = policy_name,
           State = state,
           Conditions = build_conditions_dict order conditions,
           GrantControls = build_grant_controls actions,
           SessionControls = (if sc = no_session_controls then None else Some sc)\<rparr>,
          policy_counter + 1))"

definition merge_values_step :: "Condition \<Rightarrow> string set \<Rightarrow> string set" where
  "merge_values_step cond vals =
     (if c_operator cond = ''is-or'' then vals \<union> set (split ''|'' (c_value cond))
      else insert (c_value cond) vals)"

definition merge_guids_step :: "Condition \<Rightarrow> string set \<Rightarrow> string set" where
  "merge_guids_step cond unique_guids =
     (if truthy (c_guid cond) then insert (the (c_guid cond)) unique_guids else unique_guids)"

definition merge_conditions_of_type ::
  "(string set \<Rightarrow> string list) \<Rightarrow> string \<Rightarrow> Condition list \<Rightarrow> Condition list" where
  "merge_conditions_of_type order cond_type conditions =
     (if conditions = [] then []
      else if cond_type \<in> {''platform'', ''location'', ''client'', ''app''} then
        (let vals = fold merge_values_step conditions {}
         in if card vals > 1
            then [mkCondition cond_type ''is-or'' (join ''|'' (sorted_list_of_set vals)) None False]
            else [hd conditions])
      else if cond_type \<in> {''user-group'', ''user-role''} then
        (let unique_guids = fold merge_guids_step conditions {}
         in map (\<lambda>guid.
                  let orig = (case find (\<lambda>c. c_guid c = Some guid) conditions of
                                Some c \<Rightarrow> c
                              | None \<Rightarrow> hd conditions)
                  in mkCondition cond_type ''in'' (c_value orig) (Some guid) (c_is_negated orig))
                (order unique_guids))
      else [hd conditions])"

definition group_conditions :: "PolicyPath list \<Rightarrow> (string \<times> Condition list) list" where
  \<comment> \<open>\<open>condition_groups\<close>: the conditions of all paths, grouped by type\<close>
  "group_conditions paths =
     fold (\<lambda>path groups. fold (\<lambda>cond g. dict_append g (c_type cond) cond) (p_conditions path) groups)
          paths []"

definition merge_conditions :: "(string set \<Rightarrow> string list) \<Rightarrow> PolicyPath list \<Rightarrow> Condition list" where
  \<comment> \<open>\<open>merged_conditions\<close>\<close>
  "merge_conditions order paths =
     concat (map (\<lambda>(cond_type, conds). merge_conditions_of_type order cond_type conds)
                 (group_conditions paths))"

text \<open>
  The state is read back from the cluster key: the second piece of the key split at
  \<open>|STATE:\<close> (a key that holds the separator splits into two pieces at least).
\<close>

definition state_of_signature :: "string \<Rightarrow> string" where
  "state_of_signature signature =
     (if contains ''|STATE:'' signature
      then (case split ''|STATE:'' signature of _ # st # _ \<Rightarrow> st | _ \<Rightarrow> ''enabled'')
      else ''enabled'')"

definition merge_cluster ::
  "(string set \<Rightarrow> string list) \<Rightarrow> nat \<Rightarrow> string \<Rightarrow> PolicyPath list \<Rightarrow> Policy \<times> nat" where
  "merge_cluster order policy_counter signature paths =
     (let state = state_of_signature signature;
          merged_conditions = merge_conditions order paths;
          actions = (if paths \<noteq> [] then p_actions (hd paths) else [])
      in create_policy order policy_counter merged_conditions actions state)"

definition full_signature :: "PolicyPath \<Rightarrow> string" where
  "full_signature path = get_action_signature path @ ''|STATE:'' @ p_state path"

definition cluster_by_action :: "PolicyPath list \<Rightarrow> (string \<times> PolicyPath list) list" where
  "cluster_by_action paths =
     fold (\<lambda>path clusters. dict_append clusters (full_signature path) path) paths []"

text \<open>
  \<open>optimize\<close> on an optimizer whose counter is \<open>policy_counter\<close>: the records, and the
  counter afterwards. A fresh \<open>PolicyOptimizer()\<close> starts at 1.
\<close>

definition optimize_step ::
  "(string set \<Rightarrow> string list) \<Rightarrow> string \<times> PolicyPath list \<Rightarrow> Policy list \<times> nat \<Rightarrow> Policy list \<times> nat" where
  "optimize_step order cluster acc =
     (case (cluster, acc) of ((signature, cluster_paths), (optimized_policies, policy_counter)) \<Rightarrow>
        (case merge_cluster order policy_counter signature cluster_paths of
           (merged_policy, policy_counter') \<Rightarrow>
             (optimized_policies @ [merged_policy], policy_counter')))"

definition optimize_from ::
  "(string set \<Rightarrow> string list) \<Rightarrow> nat \<Rightarrow> PolicyPath list \<Rightarrow> Policy list \<times> nat" where
  "optimize_from order policy_counter paths =
     fold (optimize_step order) (cluster_by_action paths) ([], policy_counter)"

definition optimize :: "(string set \<Rightarrow> string list) \<Rightarrow> PolicyPath list \<Rightarrow> Policy list" where
  "optimize order paths = fst (optimize_from order 1 paths)"

section \<open>PathExtractor\<close>

definition leaf_path :: "Condition list \<Rightarrow> PolicyBranch \<Rightarrow> PolicyPath" where
  "leaf_path conds b = \<lparr>p_conditions = conds, p_actions = b_actions b, p_state = b_state b\<rparr>"

fun extract_paths_from_statement :: "IfStatement \<Rightarrow> Condition list \<Rightarrow> PolicyPath list" where
  "extract_paths_from_statement (IfStatement ifb elifs elseb) parent_conditions =
     (case ifb of PolicyBranch cs _ _ nested \<Rightarrow>
        (case nested of
           Some n \<Rightarrow> extract_paths_from_statement n (parent_conditions @ cs)
         | None \<Rightarrow> [leaf_path (parent_conditions @ cs) ifb]))
     @ concat (map (\<lambda>else_if_branch.
          case else_if_branch of PolicyBranch cs _ _ nested \<Rightarrow>
            (case nested of
               Some n \<Rightarrow> extract_paths_from_statement n (parent_conditions @ cs)
             | None \<Rightarrow> [leaf_path (parent_conditions @ cs) else_if_branch])) elifs)
     @ (case elseb of
          None \<Rightarrow> []
        | Some eb \<Rightarrow>
            (case eb of PolicyBranch cs _ _ nested \<Rightarrow>
               (case nested of
                  Some n \<Rightarrow> extract_paths_from_statement n (parent_conditions @ cs)
                | None \<Rightarrow> [leaf_path (parent_conditions @ cs) eb])))"

definition extract_paths :: "IfStatement list \<Rightarrow> PolicyPath list" where
  "extract_paths statements = concat (map (\<lambda>stmt. extract_paths_from_statement stmt []) statements)"

section \<open>CAPLParser\<close>

text \<open>
  The state of a parser object: the variable table (a dictionary, in insertion order),
  the cursor and the lines of the file. \<open>log\<close> collects what the parser prints as
  warnings.
\<close>

record Parser =
  variables :: "(string \<times> Variable) list"
  line_number :: nat
  lines :: "string list"
  log :: "string list"

definition new_parser :: Parser where
  \<comment> \<open>\<open>CAPLParser()\<close>\<close>
  "new_parser = \<lparr>variables = [], line_number = 0, lines = [], log = []\<rparr>"

definition current_line_stripped :: "Parser \<Rightarrow> string" where
  "current_line_stripped P =
     (if line_number P \<ge> length (lines P) then [] else strip (lines P ! line_number P))"

definition current_line_indent :: "Parser \<Rightarrow> int" where
  "current_line_indent P =
     (if line_number P \<ge> length (lines P) then 0
      else int (length (lines P ! line_number P)) - int (length (lstrip (lines P ! line_number P))))"

definition advance :: "Parser \<Rightarrow> Parser" where
  \<comment> \<open>\<open>self.line_number += 1\<close>\<close>
  "advance P = P\<lparr>line_number := line_number P + 1\<rparr>"

subsection \<open>Variables and conditions\<close>

definition re_var :: "string \<Rightarrow> (string \<times> string \<times> string) option" where
  \<comment> \<open>\<open>VAR\s+(\w+)\s*=\s*"([^"]+)"\s*\[([^\]]+)\]\<close>\<close>
  "re_var s = do {
     r \<leftarrow> match_lit ''VAR'' s;
     r \<leftarrow> match_ws1 r;
     (var_name, r) \<leftarrow> match_word r;
     r \<leftarrow> match_ws0 r;
     r \<leftarrow> match_lit ''='' r;
     r \<leftarrow> match_ws0 r;
     (display_name, r) \<leftarrow> match_quoted r;
     r \<leftarrow> match_ws0 r;
     (guid, _) \<leftarrow> match_bracketed r;
     Some (var_name, display_name, guid) }"

definition parse_variable :: "Parser \<Rightarrow> Parser" where
  "parse_variable P =
     (case re_var (current_line_stripped P) of
        Some (var_name, display_name, guid) \<Rightarrow>
          advance (P\<lparr>variables := dict_set (variables P) var_name
                       \<lparr>v_name = var_name, v_display_name = display_name, v_guid = guid\<rparr>\<rparr>)
      | None \<Rightarrow> advance P)"

definition substitute_step :: "string \<times> Variable \<Rightarrow> string \<Rightarrow> string" where
  "substitute_step var text =
     (case var of (var_name, var_obj) \<Rightarrow>
        if contains var_name text
        then replace var_name
               ([dq] @ v_display_name var_obj @ [dq] @ '' ['' @ v_guid var_obj @ '']'') text
        else text)"

definition substitute :: "(string \<times> Variable) list \<Rightarrow> string \<Rightarrow> string" where
  \<comment> \<open>the loop that replaces the variables, in the order of the table\<close>
  "substitute vars text = fold substitute_step vars text"

definition re_is :: "string list \<Rightarrow> string \<Rightarrow> (string \<times> string) option" where
  \<comment> \<open>\<open>(k1|k2|...)\s+is\s+(\w+)\<close>, ignoring case\<close>
  "re_is kinds s = do {
     (k, r) \<leftarrow> match_alt_ci kinds s;
     r \<leftarrow> match_ws1 r;
     (_, r) \<leftarrow> match_lit_ci ''is'' r;
     r \<leftarrow> match_ws1 r;
     (w, _) \<leftarrow> match_word r;
     Some (k, w) }"

definition re_not_is :: "string list \<Rightarrow> string \<Rightarrow> (string \<times> string) option" where
  \<comment> \<open>\<open>(k)\s+NOT\s+is\s+(\w+)\<close>, ignoring case\<close>
  "re_not_is kinds s = do {
     (k, r) \<leftarrow> match_alt_ci kinds s;
     r \<leftarrow> match_ws1 r;
     (_, r) \<leftarrow> match_lit_ci ''NOT'' r;
     r \<leftarrow> match_ws1 r;
     (_, r) \<leftarrow> match_lit_ci ''is'' r;
     r \<leftarrow> match_ws1 r;
     (w, _) \<leftarrow> match_word r;
     Some (k, w) }"

definition re_in_tail :: "string \<Rightarrow> (string \<times> string) option" where
  \<comment> \<open>\<open>"([^"]+)"\s*\[([^\]]+)\]\<close>\<close>
  "re_in_tail s = do {
     (name, r) \<leftarrow> match_quoted s;
     r \<leftarrow> match_ws0 r;
     (guid, _) \<leftarrow> match_bracketed r;
     Some (name, guid) }"

definition re_user_in :: "bool \<Rightarrow> string \<Rightarrow> (string \<times> string \<times> string \<times> string) option" where
  \<comment> \<open>\<open>(user)\s+in\s+(group|role)\s+"([^"]+)"\s*\[([^\]]+)\]\<close>, with \<open>NOT\s+\<close> before
      \<open>in\<close> when the flag is set; ignoring case\<close>
  "re_user_in neg s = do {
     (k, r) \<leftarrow> match_lit_ci ''user'' s;
     r \<leftarrow> match_ws1 r;
     r \<leftarrow> (if neg then do { (_, r) \<leftarrow> match_lit_ci ''NOT'' r; match_ws1 r } else Some r);
     (_, r) \<leftarrow> match_lit_ci ''in'' r;
     r \<leftarrow> match_ws1 r;
     (g, r) \<leftarrow> match_alt_ci [''group'', ''role''] r;
     r \<leftarrow> match_ws1 r;
     (name, guid) \<leftarrow> re_in_tail r;
     Some (k, g, name, guid) }"

definition re_in :: "string \<Rightarrow> (string \<times> string \<times> string) option" where
  \<comment> \<open>\<open>(app|location)\s+in\s+"([^"]+)"\s*\[([^\]]+)\]\<close>, ignoring case\<close>
  "re_in s = do {
     (k, r) \<leftarrow> match_alt_ci [''app'', ''location''] s;
     r \<leftarrow> match_ws1 r;
     (_, r) \<leftarrow> match_lit_ci ''in'' r;
     r \<leftarrow> match_ws1 r;
     (name, guid) \<leftarrow> re_in_tail r;
     Some (k, name, guid) }"

definition re_or :: "string \<Rightarrow> (string \<times> string) option" where
  \<comment> \<open>the branch for a text that holds \<open>OR\<close> between spaces: its first part has to match
      \<open>(platform|client)\s+is\s+(\w+)\<close>; the values are those of the parts that match\<close>
  "re_or text =
     (if contains '' OR '' text then
        (let parts = map strip (split '' OR '' text) in
         case re_is [''platform'', ''client''] (hd parts) of
           Some (k, _) \<Rightarrow>
             Some (k, join ''|'' (concat (map (\<lambda>part.
                         case re_is [''platform'', ''client''] part of
                           Some (_, v) \<Rightarrow> [v] | None \<Rightarrow> []) parts)))
         | None \<Rightarrow> None)
      else None)"

text \<open>
  \<open>grammar vars text\<close> is the chain of patterns of \<open>_parse_condition\<close> on the text
  after substitution: the Condition of the first pattern that matches, or \<open>None\<close> when
  the source reaches its last two lines.
\<close>

definition grammar :: "string \<Rightarrow> Condition option" where
  "grammar text =
     (case re_is [''user'', ''app'', ''platform'', ''device'', ''location'', ''client''] text of
        Some (k, w) \<Rightarrow> Some (mkCondition (lower k) ''is'' w None False)
      | None \<Rightarrow>
     (case re_user_in True text of
        Some (k, g, name, guid) \<Rightarrow> Some (mkCondition (lower k) ''in'' name (Some guid) True)
      | None \<Rightarrow>
     (case re_user_in False text of
        Some (k, g, name, guid) \<Rightarrow>
          Some (mkCondition (lower k @ ''-'' @ lower g) ''in'' name (Some guid) False)
      | None \<Rightarrow>
     (case re_in text of
        Some (k, name, guid) \<Rightarrow> Some (mkCondition (lower k) ''in'' name (Some guid) False)
      | None \<Rightarrow>
     (case re_not_is [''location''] text of
        Some (k, w) \<Rightarrow> Some (mkCondition (lower k) ''is'' w None True)
      | None \<Rightarrow>
     (case re_not_is [''client''] text of
        Some (k, w) \<Rightarrow> Some (mkCondition (lower k) ''is'' w None True)
      | None \<Rightarrow>
     (case re_or text of
        Some (k, vs) \<Rightarrow> Some (mkCondition (lower k) ''is-or'' vs None False)
      | None \<Rightarrow>
     (case re_is [''signin-risk'', ''user-risk''] text of
        Some (k, w) \<Rightarrow> Some (mkCondition (lower k) ''is'' w None False)
      | None \<Rightarrow>
     (case re_is [''device''] text of
        Some (k, w) \<Rightarrow> Some (mkCondition (lower k) ''is'' w None False)
      | None \<Rightarrow> None)))))))))"

text \<open>
  \<open>parse_condition\<close> returns the Condition and the lines it prints.
\<close>

definition parse_condition :: "(string \<times> Variable) list \<Rightarrow> string \<Rightarrow> Condition \<times> string list" where
  "parse_condition vars text0 =
     (let text = substitute vars text0 in
      case grammar text of
        Some c \<Rightarrow> (c, [])
      | None \<Rightarrow> (mkCondition ''unknown'' ''is'' text None False,
                 [''Warning: Could not parse condition: '' @ text]))"

subsection \<open>Branches and decisions\<close>

definition add_condition :: "PolicyBranch \<Rightarrow> Condition \<Rightarrow> PolicyBranch" where
  \<comment> \<open>\<open>branch.conditions.append(c)\<close>\<close>
  "add_condition b c = PolicyBranch (b_conditions b @ [c]) (b_actions b) (b_state b) (b_nested_if b)"

definition add_action :: "PolicyBranch \<Rightarrow> Action \<Rightarrow> PolicyBranch" where
  \<comment> \<open>\<open>branch.actions.append(a)\<close>\<close>
  "add_action b a = PolicyBranch (b_conditions b) (b_actions b @ [a]) (b_state b) (b_nested_if b)"

definition set_state :: "PolicyBranch \<Rightarrow> string \<Rightarrow> PolicyBranch" where
  \<comment> \<open>\<open>branch.state = s\<close>\<close>
  "set_state b s = PolicyBranch (b_conditions b) (b_actions b) s (b_nested_if b)"

definition set_nested_if :: "PolicyBranch \<Rightarrow> IfStatement \<Rightarrow> PolicyBranch" where
  \<comment> \<open>\<open>branch.nested_if = stmt\<close>\<close>
  "set_nested_if b stmt = PolicyBranch (b_conditions b) (b_actions b) (b_state b) (Some stmt)"

definition stop_words :: "string list" where
  \<comment> \<open>the list \<open>['ELSE IF ', 'ELSE', 'END']\<close> that both loops compare the stripped line with\<close>
  "stop_words = [''ELSE IF '', ''ELSE'', ''END'']"

definition parse_condition_at :: "Parser \<Rightarrow> string \<Rightarrow> PolicyBranch \<Rightarrow> PolicyBranch \<times> Parser" where
  \<comment> \<open>\<open>branch.conditions.append(self._parse_condition(text))\<close>\<close>
  "parse_condition_at P text branch =
     (case parse_condition (variables P) text of
        (c, printed) \<Rightarrow> (add_condition branch c, P\<lparr>log := log P @ printed\<rparr>))"

text \<open>
  The loop of \<open>_parse_branch\<close> over the further conditions of a branch. Every round
  either stops or moves the cursor one line on.
\<close>

function conditions_loop :: "int \<Rightarrow> PolicyBranch \<Rightarrow> Parser \<Rightarrow> PolicyBranch \<times> Parser" where
  "conditions_loop base_indent branch P =
     (if line_number P < length (lines P) then
        (let line = current_line_stripped P;
             indent = current_line_indent P
         in if line = [] \<or> startswith line ''#'' then
              conditions_loop base_indent branch (P\<lparr>line_number := line_number P + 1\<rparr>)
            else if indent \<le> base_indent \<and> line \<in> set stop_words then (branch, P)
            else if startswith line ''STATE '' then (branch, P)
            else if startswith line ''IF '' then (branch, P)
            else
              conditions_loop base_indent
                (add_condition branch (fst (parse_condition (variables P) line)))
                (P\<lparr>log := log P @ snd (parse_condition (variables P) line),
                   line_number := line_number P + 1\<rparr>))
      else (branch, P))"
  by pat_completeness auto
termination
  by (relation "measure (\<lambda>(base_indent, branch, P). length (lines P) - line_number P)") auto

definition branch_head :: "Parser \<Rightarrow> PolicyBranch \<times> Parser" where
  \<comment> \<open>the start of \<open>_parse_branch\<close>: the condition on the line of \<open>IF\<close> or \<open>ELSE IF\<close>\<close>
  "branch_head P =
     (let line = current_line_stripped P in
      if startswith line ''IF '' then
        (let cond_text = strip (drop 3 line) in
         case (if cond_text \<noteq> [] then parse_condition_at P cond_text empty_branch
               else (empty_branch, P)) of
           (branch, P') \<Rightarrow> (branch, advance P'))
      else if startswith line ''ELSE IF '' then
        (let cond_text = strip (drop 8 line) in
         case (if cond_text \<noteq> [] then parse_condition_at P cond_text empty_branch
               else (empty_branch, P)) of
           (branch, P') \<Rightarrow> (branch, advance P'))
      else (empty_branch, P))"

definition body_state :: "PolicyBranch \<Rightarrow> Parser \<Rightarrow> PolicyBranch \<times> Parser" where
  \<comment> \<open>the start of \<open>_parse_branch_body\<close>: the line of \<open>STATE\<close>\<close>
  "body_state branch P =
     (let line = current_line_stripped P in
      if startswith line ''STATE '' then (set_state branch (strip (drop 6 line)), advance P)
      else (branch, P))"

definition is_action_line :: "string \<Rightarrow> bool" where
  \<comment> \<open>\<open>line.startswith(('REQUIRE ', 'BLOCK', 'ALLOW', 'SESSION '))\<close>\<close>
  "is_action_line line =
     (startswith line ''REQUIRE '' \<or> startswith line ''BLOCK''
      \<or> startswith line ''ALLOW'' \<or> startswith line ''SESSION '')"

text \<open>
  The recursive descent. \<open>_parse_if_statement\<close>, \<open>_parse_branch\<close> and
  \<open>_parse_branch_body\<close> call one another through the shared cursor; the model passes
  the parser state along and counts every call and every round of a loop against a
  budget \<open>fuel\<close>, with \<open>None\<close> for a budget that ran out. \<open>if_loop\<close> and \<open>body_loop\<close>
  are the \<open>while\<close> loops of \<open>_parse_if_statement\<close> and \<open>_parse_branch_body\<close>.
\<close>

function (sequential) parse_if_statement :: "nat \<Rightarrow> int \<Rightarrow> Parser \<Rightarrow> (IfStatement \<times> Parser) option"
and if_loop :: "nat \<Rightarrow> int \<Rightarrow> IfStatement \<Rightarrow> Parser \<Rightarrow> (IfStatement \<times> Parser) option"
and parse_branch :: "nat \<Rightarrow> int \<Rightarrow> Parser \<Rightarrow> (PolicyBranch \<times> Parser) option"
and parse_branch_body :: "nat \<Rightarrow> int \<Rightarrow> PolicyBranch \<Rightarrow> Parser \<Rightarrow> (PolicyBranch \<times> Parser) option"
and body_loop :: "nat \<Rightarrow> int \<Rightarrow> PolicyBranch \<Rightarrow> Parser \<Rightarrow> (PolicyBranch \<times> Parser) option"
where
  "parse_if_statement 0 base_indent P = None"
| "parse_if_statement (Suc fuel) base_indent P =
     (case parse_branch fuel base_indent P of
        None \<Rightarrow> None
      | Some (b, P') \<Rightarrow> if_loop fuel base_indent (IfStatement b [] None) P')"
| "if_loop 0 base_indent stmt P = None"
| "if_loop (Suc fuel) base_indent stmt P =
     (if line_number P < length (lines P) then
        (let line = current_line_stripped P;
             indent = current_line_indent P
         in if indent < base_indent then Some (stmt, P)
            else if startswith line ''ELSE IF '' then
              (case parse_branch fuel base_indent P of
                 None \<Rightarrow> None
               | Some (b, P') \<Rightarrow>
                   if_loop fuel base_indent
                     (IfStatement (if_branch stmt) (else_if_branches stmt @ [b]) (else_branch stmt)) P')
            else if line = ''ELSE'' then
              (case parse_branch_body fuel (base_indent + 4) empty_branch (advance P) of
                 None \<Rightarrow> None
               | Some (b, P') \<Rightarrow>
                   if_loop fuel base_indent
                     (IfStatement (if_branch stmt) (else_if_branches stmt) (Some b)) P')
            else if line = ''END'' then Some (stmt, advance P)
            else Some (stmt, P))
      else Some (stmt, P))"
| "parse_branch 0 base_indent P = None"
| "parse_branch (Suc fuel) base_indent P =
     (case branch_head P of
        (branch, P1) \<Rightarrow>
          (case conditions_loop base_indent branch P1 of
             (branch', P2) \<Rightarrow> parse_branch_body fuel (base_indent + 4) branch' P2))"
| "parse_branch_body 0 expected_indent branch P = None"
| "parse_branch_body (Suc fuel) expected_indent branch P =
     (case body_state branch P of
        (branch', P') \<Rightarrow> body_loop fuel expected_indent branch' P')"
| "body_loop 0 expected_indent branch P = None"
| "body_loop (Suc fuel) expected_indent branch P =
     (if line_number P < length (lines P) then
        (let line = current_line_stripped P;
             indent = current_line_indent P
         in if line = [] \<or> startswith line ''#'' then
              body_loop fuel expected_indent branch (advance P)
            else if indent < expected_indent - 4 then Some (branch, P)
            else if line \<in> set stop_words then Some (branch, P)
            else if startswith line ''IF '' then
              (case parse_if_statement fuel indent P of
                 None \<Rightarrow> None
               | Some (stmt, P') \<Rightarrow> body_loop fuel expected_indent (set_nested_if branch stmt) P')
            else if is_action_line line then
              body_loop fuel expected_indent (add_action branch (parse_action line)) (advance P)
            else body_loop fuel expected_indent branch (advance P))
      else Some (branch, P))"
  by pat_completeness auto
termination
  by (relation "measure (\<lambda>x. case x of
        Inl (Inl (fuel, _)) \<Rightarrow> fuel
      | Inl (Inr (fuel, _)) \<Rightarrow> fuel
      | Inr (Inl (fuel, _)) \<Rightarrow> fuel
      | Inr (Inr (Inl (fuel, _))) \<Rightarrow> fuel
      | Inr (Inr (Inr (fuel, _))) \<Rightarrow> fuel)") auto

text \<open>The loop of \<open>parse_file\<close> over the top-level lines.\<close>

fun file_loop :: "nat \<Rightarrow> IfStatement list \<Rightarrow> Parser \<Rightarrow> (IfStatement list \<times> Parser) option" where
  "file_loop 0 statements P = None"
| "file_loop (Suc fuel) statements P =
     (if line_number P < length (lines P) then
        (let line = current_line_stripped P
         in if line = [] \<or> startswith line ''#'' then file_loop fuel statements (advance P)
            else if startswith line ''VAR '' then file_loop fuel statements (parse_variable P)
            else if startswith line ''IF '' then
              (case parse_if_statement fuel 0 P of
                 None \<Rightarrow> None
               | Some (stmt, P') \<Rightarrow> file_loop fuel (statements @ [stmt]) P')
            else file_loop fuel statements (advance P))
      else Some (statements, P))"

text \<open>
  \<open>parse_file\<close> on the content of a file: the lines and the cursor are set anew, the
  rest of the parser object is left as it is.
\<close>

definition parse_file :: "nat \<Rightarrow> Parser \<Rightarrow> string \<Rightarrow> (IfStatement list \<times> Parser) option" where
  "parse_file fuel P content =
     file_loop fuel [] (P\<lparr>lines := split [CHR 0x0A] content, line_number := 0\<rparr>)"



section \<open>Notions the properties are stated with\<close>

text \<open>
  The values the signature is made of: the value of every \<open>REQUIRE\<close> action, and of
  every \<open>SESSION\<close> action, that has a non-empty value, each taken whole and in the
  order of the actions.
\<close>

definition require_values :: "Action list \<Rightarrow> string list" where
  "require_values actions =
     map (\<lambda>a. the (a_value a)) (filter (\<lambda>a. a_type a = ''REQUIRE'' \<and> truthy (a_value a)) actions)"

definition session_values :: "Action list \<Rightarrow> string list" where
  "session_values actions =
     map (\<lambda>a. the (a_value a)) (filter (\<lambda>a. a_type a = ''SESSION'' \<and> truthy (a_value a)) actions)"

text \<open>
  The signature as the specification words it: the \<open>REQUIRE\<close> values are exploded at
  \<open>|\<close> into single control names before they are sorted.
\<close>

definition explode_values :: "string list \<Rightarrow> string list" where
  "explode_values vs = concat (map (split ''|'') vs)"

definition spec_signature :: "PolicyPath \<Rightarrow> string" where
  "spec_signature p =
     (if list_ex (\<lambda>a. a_type a = ''BLOCK'') (p_actions p) then ''BLOCK''
      else ''GRANT:''
           @ (if require_values (p_actions p) = [] then ''ALLOW''
              else join '','' (sort (explode_values (require_values (p_actions p)))))
           @ (if session_values (p_actions p) = [] then []
              else ''|SESSION:'' @ join '','' (sort (session_values (p_actions p)))))"

text \<open>
  What \<open>_extract_paths_from_statement\<close> does at one branch (the source repeats these
  lines for the \<open>if\<close> branch, for every \<open>else-if\<close> branch and for the \<open>else\<close>
  branch), and a branch with other actions in the place of its own.
\<close>

definition branch_paths :: "Condition list \<Rightarrow> PolicyBranch \<Rightarrow> PolicyPath list" where
  "branch_paths parent_conditions b =
     (case b_nested_if b of
        Some n \<Rightarrow> extract_paths_from_statement n (parent_conditions @ b_conditions b)
      | None \<Rightarrow> [leaf_path (parent_conditions @ b_conditions b) b])"

definition set_actions :: "PolicyBranch \<Rightarrow> Action list \<Rightarrow> PolicyBranch" where
  "set_actions b acts = PolicyBranch (b_conditions b) acts (b_state b) (b_nested_if b)"

text \<open>
  Two paths are placed in the same cluster when one entry of the dictionary of clusters
  holds both. \<open>group_by key xs d\<close> is the loop that files every element of \<open>xs\<close>
  under its key in a \<open>defaultdict(list)\<close>; \<open>_cluster_by_action\<close> and the grouping of
  the conditions by type in \<open>_merge_cluster\<close> are both of this shape.
\<close>

definition same_cluster :: "PolicyPath list \<Rightarrow> PolicyPath \<Rightarrow> PolicyPath \<Rightarrow> bool" where
  "same_cluster paths p q =
     list_ex (\<lambda>c. p \<in> set (snd c) \<and> q \<in> set (snd c)) (cluster_by_action paths)"

definition group_by :: "('a \<Rightarrow> 'k) \<Rightarrow> 'a list \<Rightarrow> ('k \<times> 'a list) list \<Rightarrow> ('k \<times> 'a list) list" where
  "group_by key xs d = fold (\<lambda>x d. dict_append d (key x) x) xs d"

text \<open>
  The literal values of one condition (an \<open>is-or\<close> value exploded at \<open>|\<close>), the
  conditions of one kind in a cluster, in the order of the paths, and the union of
  their literal values.
\<close>

definition literal_values :: "Condition \<Rightarrow> string set" where
  "literal_values c =
     (if c_operator c = ''is-or'' then set (split ''|'' (c_value c)) else {c_value c})"

definition cluster_conditions :: "string \<Rightarrow> PolicyPath list \<Rightarrow> Condition list" where
  "cluster_conditions t paths = filter (\<lambda>c. c_type c = t) (concat (map p_conditions paths))"

definition cluster_values :: "string \<Rightarrow> PolicyPath list \<Rightarrow> string set" where
  "cluster_values t paths = (\<Union>c \<in> set (cluster_conditions t paths). literal_values c)"

text \<open>
  The lines that the loop of \<open>_parse_branch\<close> hands to \<open>_parse_condition\<close>: the
  cursor is inside the file and the line passes every test of the loop. Then the
  Condition of kind \<open>unknown\<close>, and the line the parser prints with it.
\<close>

definition is_condition_line :: "int \<Rightarrow> Parser \<Rightarrow> bool" where
  "is_condition_line base_indent P =
     (let line = current_line_stripped P; indent = current_line_indent P
      in line_number P < length (lines P)
         \<and> line \<noteq> [] \<and> \<not> startswith line ''#''
         \<and> \<not> (indent \<le> base_indent \<and> line \<in> set stop_words)
         \<and> \<not> startswith line ''STATE '' \<and> \<not> startswith line ''IF '')"

definition unknown_condition :: "string \<Rightarrow> Condition" where
  "unknown_condition text = mkCondition ''unknown'' ''is'' text None False"

definition warning :: "string \<Rightarrow> string" where
  "warning text = ''Warning: Could not parse condition: '' @ text"

text \<open>The variable table after the declaration \<open>VAR G = "Grp" [g1]\<close>.\<close>

definition ex_vars :: "(string \<times> Variable) list" where
  "ex_vars = [(''G'', \<lparr>v_name = ''G'', v_display_name = ''Grp'', v_guid = ''g1''\<rparr>)]"

text \<open>
  The order in which keys are first seen in a list: the order of the keys of a
  dictionary filled from it.
\<close>

definition first_seen :: "'k list \<Rightarrow> 'k list" where
  "first_seen ks = fold (\<lambda>k seen. if k \<in> set seen then seen else seen @ [k]) ks []"


text \<open>
  Example inputs. A decision with an \<open>ELSE IF\<close> branch; a file that declares the
  variable \<open>G\<close> and a second file that uses the name \<open>G\<close> without declaring it; two
  paths with the same outcome and different client types, and two with different
  groups; and two iteration orders of a set of strings, ascending and descending, as
  two interpreter processes with different hash seeds may have them.
\<close>

definition ex_else_if :: "string list" where
  "ex_else_if =
     [''IF platform is Windows'',
      ''    STATE enabled'',
      ''        BLOCK'',
      ''ELSE IF platform is macOS'',
      ''    STATE report-only'',
      ''        REQUIRE MFA'',
      ''END'']"



definition ex_client_paths :: "PolicyPath list" where
  "ex_client_paths =
     [\<lparr>p_conditions = [mkCondition ''client'' ''is'' ''Browser'' None False],
       p_actions = [mkAction ''REQUIRE'' (Some ''MFA'') False], p_state = ''enabled''\<rparr>,
      \<lparr>p_conditions = [mkCondition ''client'' ''is'' ''Other'' None False],
       p_actions = [mkAction ''REQUIRE'' (Some ''MFA'') False], p_state = ''enabled''\<rparr>]"

definition ex_group_paths :: "PolicyPath list" where
  "ex_group_paths =
     [\<lparr>p_conditions = [mkCondition ''user-group'' ''in'' ''A'' (Some ''g1'') False],
       p_actions = [mkAction ''BLOCK'' None False], p_state = ''enabled''\<rparr>,
      \<lparr>p_conditions = [mkCondition ''user-group'' ''in'' ''B'' (Some ''g2'') False],
       p_actions = [mkAction ''BLOCK'' None False], p_state = ''enabled''\<rparr>]"

definition order_up :: "string set \<Rightarrow> string list" where
  "order_up s = sorted_list_of_set s"

definition order_down :: "string set \<Rightarrow> string list" where
  "order_down s = rev (sorted_list_of_set s)"

text \<open>
  Two parser states that differ in the printed warnings at most, and two results of a
  parsing function that agree up to them. A file with no declaration in it.
\<close>

definition same_but_log :: "Parser \<Rightarrow> Parser \<Rightarrow> bool" where
  "same_but_log P Q =
     (variables P = variables Q \<and> line_number P = line_number Q \<and> lines P = lines Q)"








section \<open>Properties of the optimizer's rendering\<close>

lemma filter_block_nonempty:
  "list_ex (\<lambda>a. a_type a = ''BLOCK'') actions \<Longrightarrow>
   filter (\<lambda>a. a_type a = ''BLOCK'') actions \<noteq> []"
  by (induction actions) auto

text \<open>
  C4. For every action list that holds at least one \<open>BLOCK\<close> action, the grant controls
  built from it, and so the grant controls of the record rendered from it, are exactly
  \<open>{Operator: OR, BuiltInControls: ["block"]}\<close>, whatever \<open>REQUIRE\<close> actions the list
  also holds; and the outcome signature of a path with these actions is the single
  token \<open>BLOCK\<close>.
\<close>

theorem C4_block_overrides:
  assumes "list_ex (\<lambda>a. a_type a = ''BLOCK'') actions"
  shows "build_grant_controls actions = Some \<lparr>Operator = ''OR'', BuiltInControls = [''block'']\<rparr>
       \<and> GrantControls (fst (create_policy order n conds actions st))
           = Some \<lparr>Operator = ''OR'', BuiltInControls = [''block'']\<rparr>
       \<and> get_action_signature \<lparr>p_conditions = cs, p_actions = actions, p_state = st\<rparr> = ''BLOCK''"
proof -
  have g: "build_grant_controls actions = Some \<lparr>Operator = ''OR'', BuiltInControls = [''block'']\<rparr>"
    using filter_block_nonempty [OF assms] by (simp add: build_grant_controls_def Let_def)
  have p: "GrantControls (fst (create_policy order n conds actions st)) = build_grant_controls actions"
    by (simp add: create_policy_def Let_def)
  have s: "get_action_signature \<lparr>p_conditions = cs, p_actions = actions, p_state = st\<rparr> = ''BLOCK''"
    using assms by (simp add: get_action_signature_def)
  from g p s show ?thesis by simp
qed

theorem C4_block_overrides_witness:
  "list_ex (\<lambda>a. a_type a = ''BLOCK'') [parse_action ''REQUIRE MFA'', parse_action ''BLOCK'']
   \<and> build_grant_controls [parse_action ''REQUIRE MFA'', parse_action ''BLOCK'']
       = Some \<lparr>Operator = ''OR'', BuiltInControls = [''block'']\<rparr>
   \<and> get_action_signature
        \<lparr>p_conditions = [], p_actions = [parse_action ''REQUIRE MFA'', parse_action ''BLOCK''],
         p_state = ''enabled''\<rparr> = ''BLOCK''"
proof -
  have h: "list_ex (\<lambda>a. a_type a = ''BLOCK'') [parse_action ''REQUIRE MFA'', parse_action ''BLOCK'']"
    by (simp add: parse_action_def mkAction_def startswith_def)
  show ?thesis
    using h C4_block_overrides [OF h, of sorted_list_of_set 1 "[]" "''enabled''" "[]"] by simp
qed

section \<open>The outcome signature\<close>

lemma fold_sig_step:
  "fold sig_step actions (g, s) = (g @ require_values actions, s @ session_values actions)"
  by (induction actions arbitrary: g s)
     (auto simp: sig_step_def require_values_def session_values_def)

lemma join_nonempty:
  "xs \<noteq> [] \<Longrightarrow> \<forall>x \<in> set xs. x \<noteq> [] \<Longrightarrow> join sep xs \<noteq> []"
  by (induction sep xs rule: join.induct) auto

lemma session_values_nonempty: "\<forall>x \<in> set (session_values actions). x \<noteq> []"
  by (auto simp: session_values_def truthy_def split: option.splits)

lemma sort_eq_Nil: "(sort xs = []) = (xs = ([]::string list))"
  by (metis length_sort length_0_conv)

lemma parse_require_or:
  "parse_action ''REQUIRE MFA OR CompliantDevice''
     = mkAction ''REQUIRE'' (Some ''MFA|CompliantDevice'') True"
  by (simp add: parse_action_def startswith_def strip_def isspace_def)

lemma parse_require_mfa:
  "parse_action ''REQUIRE MFA'' = mkAction ''REQUIRE'' (Some ''MFA'') False"
  by (simp add: parse_action_def startswith_def strip_def isspace_def)

lemma parse_require_cd:
  "parse_action ''REQUIRE CompliantDevice'' = mkAction ''REQUIRE'' (Some ''CompliantDevice'') False"
  by (simp add: parse_action_def startswith_def strip_def isspace_def)

lemma parse_session_bd:
  "parse_action ''SESSION block-downloads'' = mkAction ''SESSION'' (Some ''block-downloads'') False"
  by (simp add: parse_action_def startswith_def strip_def isspace_def)

text \<open>
  C2, as the code has it. For every path with no \<open>BLOCK\<close> action the signature is
  \<open>GRANT:<grant>\<close>, followed by \<open>|SESSION:<session>\<close> when there are session values.
  The grant component is the sorted list of the \<open>REQUIRE\<close> values joined with a comma,
  each value taken whole, duplicates kept, and \<open>ALLOW\<close> when there is none; a value
  that lists alternatives stays one entry, with its \<open>|\<close> inside. The session component
  is the sorted list of the \<open>SESSION\<close> values joined with a comma.
\<close>

theorem C2_signature_unexploded:
  assumes "\<not> list_ex (\<lambda>a. a_type a = ''BLOCK'') (p_actions p)"
  shows "get_action_signature p =
           ''GRANT:''
           @ (if require_values (p_actions p) = [] then ''ALLOW''
              else join '','' (sort (require_values (p_actions p))))
           @ (if session_values (p_actions p) = [] then []
              else ''|SESSION:'' @ join '','' (sort (session_values (p_actions p))))"
proof -
  have ne: "session_values (p_actions p) \<noteq> [] \<Longrightarrow>
            join '','' (sort (session_values (p_actions p))) \<noteq> []"
    using session_values_nonempty [of "p_actions p"]
    by (intro join_nonempty) (simp_all add: sort_eq_Nil)
  show ?thesis
    using assms ne
    by (simp add: get_action_signature_def fold_sig_step Let_def sort_eq_Nil)
qed

theorem C2_signature_unexploded_witness:
  "\<not> list_ex (\<lambda>a. a_type a = ''BLOCK'')
       [parse_action ''REQUIRE MFA OR CompliantDevice'', parse_action ''SESSION block-downloads'']
   \<and> get_action_signature
       \<lparr>p_conditions = [],
        p_actions = [parse_action ''REQUIRE MFA OR CompliantDevice'',
                     parse_action ''SESSION block-downloads''],
        p_state = ''enabled''\<rparr>
     = ''GRANT:MFA|CompliantDevice|SESSION:block-downloads''"
proof -
  let ?p = "\<lparr>p_conditions = [],
        p_actions = [parse_action ''REQUIRE MFA OR CompliantDevice'',
                     parse_action ''SESSION block-downloads''],
        p_state = ''enabled''\<rparr>"
  let ?as = "[parse_action ''REQUIRE MFA OR CompliantDevice'',
              parse_action ''SESSION block-downloads'']"
  have e: "p_actions ?p = ?as"
    by simp
  have h: "\<not> list_ex (\<lambda>a. a_type a = ''BLOCK'') (p_actions ?p)"
    by (simp add: parse_require_or parse_session_bd mkAction_def)
  have r: "require_values ?as = [''MFA|CompliantDevice'']"
    by (simp add: require_values_def parse_require_or parse_session_bd mkAction_def truthy_def)
  have s: "session_values ?as = [''block-downloads'']"
    by (simp add: session_values_def parse_require_or parse_session_bd mkAction_def truthy_def)
  have v: "get_action_signature ?p = ''GRANT:MFA|CompliantDevice|SESSION:block-downloads''"
    unfolding C2_signature_unexploded [OF h] e r s by simp
  show ?thesis
    using h v unfolding e by blast
qed

text \<open>
  The claim as it was worded fails: \<open>REQUIRE MFA OR CompliantDevice\<close> gives the grant
  component \<open>MFA|CompliantDevice\<close>, the two single requirements give
  \<open>CompliantDevice,MFA\<close>, and the signature with exploded values is not the one the
  code computes.
\<close>

theorem C2_counterexample:
  "get_action_signature
     \<lparr>p_conditions = [], p_actions = [parse_action ''REQUIRE MFA OR CompliantDevice''],
      p_state = ''enabled''\<rparr>
     = ''GRANT:MFA|CompliantDevice''
   \<and> get_action_signature
     \<lparr>p_conditions = [],
      p_actions = [parse_action ''REQUIRE CompliantDevice'', parse_action ''REQUIRE MFA''],
      p_state = ''enabled''\<rparr>
     = ''GRANT:CompliantDevice,MFA''
   \<and> get_action_signature
     \<lparr>p_conditions = [], p_actions = [parse_action ''REQUIRE MFA OR CompliantDevice''],
      p_state = ''enabled''\<rparr>
     \<noteq> spec_signature
     \<lparr>p_conditions = [], p_actions = [parse_action ''REQUIRE MFA OR CompliantDevice''],
      p_state = ''enabled''\<rparr>"
  by (simp add: parse_require_or parse_require_mfa parse_require_cd get_action_signature_def
        sig_step_def mkAction_def truthy_def spec_signature_def require_values_def
        session_values_def explode_values_def startswith_def)

section \<open>Actions of kind UNKNOWN\<close>

lemma sig_step_unknown: "a_type a = ''UNKNOWN'' \<Longrightarrow> sig_step a acc = acc"
  by (cases acc) (simp add: sig_step_def)

lemma unknown_signature:
  assumes "a_type a = ''UNKNOWN''"
  shows "get_action_signature \<lparr>p_conditions = cs, p_actions = pre @ a # post, p_state = st\<rparr>
       = get_action_signature \<lparr>p_conditions = cs, p_actions = pre @ post, p_state = st\<rparr>"
  using assms
  by (simp add: get_action_signature_def sig_step_unknown)

lemma unknown_grant:
  assumes "a_type a = ''UNKNOWN''"
  shows "build_grant_controls (pre @ a # post) = build_grant_controls (pre @ post)"
  using assms by (simp add: build_grant_controls_def)

lemma unknown_session:
  assumes "a_type a = ''UNKNOWN''"
  shows "build_session_controls (pre @ a # post) = build_session_controls (pre @ post)"
  using assms by (simp add: build_session_controls_def)

lemma parse_action_unknown:
  assumes "\<not> startswith line ''REQUIRE ''" "line \<noteq> ''BLOCK''" "line \<noteq> ''ALLOW''"
          "\<not> startswith line ''SESSION ''"
  shows "parse_action line = mkAction ''UNKNOWN'' (Some line) False"
  using assms by (simp add: parse_action_def)

text \<open>
  C10. A line that the body loop takes for an action (it begins with an action keyword)
  and that is none of the four action forms is parsed into an Action of kind
  \<open>UNKNOWN\<close> whose value is the line. Such an action is inert: wherever it stands in an
  action list, the outcome signature, the grant controls and the session controls, and
  with them these two fields of the emitted record, are those of the list without it.
\<close>

theorem C10_unknown_inert:
  assumes "is_action_line line"
      and "\<not> startswith line ''REQUIRE ''" and "line \<noteq> ''BLOCK''" and "line \<noteq> ''ALLOW''"
      and "\<not> startswith line ''SESSION ''"
  shows "parse_action line = mkAction ''UNKNOWN'' (Some line) False
       \<and> get_action_signature
           \<lparr>p_conditions = cs, p_actions = pre @ parse_action line # post, p_state = st\<rparr>
           = get_action_signature \<lparr>p_conditions = cs, p_actions = pre @ post, p_state = st\<rparr>
       \<and> build_grant_controls (pre @ parse_action line # post) = build_grant_controls (pre @ post)
       \<and> build_session_controls (pre @ parse_action line # post) = build_session_controls (pre @ post)
       \<and> GrantControls (fst (create_policy order n conds (pre @ parse_action line # post) st))
           = GrantControls (fst (create_policy order n conds (pre @ post) st))
       \<and> SessionControls (fst (create_policy order n conds (pre @ parse_action line # post) st))
           = SessionControls (fst (create_policy order n conds (pre @ post) st))"
proof -
  have pa: "parse_action line = mkAction ''UNKNOWN'' (Some line) False"
    using assms(2-5) by (rule parse_action_unknown)
  then have ty: "a_type (parse_action line) = ''UNKNOWN''"
    by (simp add: mkAction_def)
  have g: "build_grant_controls (pre @ parse_action line # post) = build_grant_controls (pre @ post)"
    using ty by (rule unknown_grant)
  have s: "build_session_controls (pre @ parse_action line # post)
           = build_session_controls (pre @ post)"
    using ty by (rule unknown_session)
  have sg: "get_action_signature
              \<lparr>p_conditions = cs, p_actions = pre @ parse_action line # post, p_state = st\<rparr>
           = get_action_signature \<lparr>p_conditions = cs, p_actions = pre @ post, p_state = st\<rparr>"
    using ty by (rule unknown_signature)
  show ?thesis
    using pa g s sg by (simp add: create_policy_def Let_def)
qed

theorem C10_unknown_inert_witness:
  "is_action_line ''BLOCKED'' \<and> is_action_line ''ALLOW extra-text''
   \<and> parse_action ''BLOCKED'' = mkAction ''UNKNOWN'' (Some ''BLOCKED'') False
   \<and> parse_action ''ALLOW extra-text'' = mkAction ''UNKNOWN'' (Some ''ALLOW extra-text'') False
   \<and> get_action_signature
        \<lparr>p_conditions = [], p_actions = [parse_action ''REQUIRE MFA'', parse_action ''BLOCKED''],
         p_state = ''enabled''\<rparr> = ''GRANT:MFA''
   \<and> build_grant_controls [parse_action ''REQUIRE MFA'', parse_action ''BLOCKED'']
        = Some \<lparr>Operator = ''AND'', BuiltInControls = [''mfa'']\<rparr>
   \<and> build_session_controls [parse_action ''REQUIRE MFA'', parse_action ''ALLOW extra-text'']
        = no_session_controls"
proof -
  have a: "is_action_line ''BLOCKED''" "\<not> startswith ''BLOCKED'' ''REQUIRE ''"
          "''BLOCKED'' \<noteq> ''BLOCK''" "''BLOCKED'' \<noteq> ''ALLOW''"
          "\<not> startswith ''BLOCKED'' ''SESSION ''"
    by (simp_all add: is_action_line_def startswith_def)
  have b: "is_action_line ''ALLOW extra-text''" "\<not> startswith ''ALLOW extra-text'' ''REQUIRE ''"
          "''ALLOW extra-text'' \<noteq> ''BLOCK''" "''ALLOW extra-text'' \<noteq> ''ALLOW''"
          "\<not> startswith ''ALLOW extra-text'' ''SESSION ''"
    by (simp_all add: is_action_line_def startswith_def)
  have s1: "get_action_signature
              \<lparr>p_conditions = [], p_actions = [parse_action ''REQUIRE MFA''], p_state = ''enabled''\<rparr>
            = ''GRANT:MFA''"
    by (simp add: parse_require_mfa get_action_signature_def sig_step_def mkAction_def truthy_def)
  have g1: "build_grant_controls [parse_action ''REQUIRE MFA'']
            = Some \<lparr>Operator = ''AND'', BuiltInControls = [''mfa'']\<rparr>"
    by (simp add: parse_require_mfa build_grant_controls_def grant_step_def unique_step_def
          mkAction_def map_grant_control_def)
  have c1: "build_session_controls [parse_action ''REQUIRE MFA''] = no_session_controls"
    by (simp add: parse_require_mfa build_session_controls_def mkAction_def)
  note ta = C10_unknown_inert [OF a, of "[]" "[parse_action ''REQUIRE MFA'']" "[]" "''enabled''"
              sorted_list_of_set 1 "[]"]
  note tb = C10_unknown_inert [OF b, of "[]" "[parse_action ''REQUIRE MFA'']" "[]" "''enabled''"
              sorted_list_of_set 1 "[]"]
  have r1: "parse_action ''BLOCKED'' = mkAction ''UNKNOWN'' (Some ''BLOCKED'') False"
    using ta by blast
  have r2: "parse_action ''ALLOW extra-text'' = mkAction ''UNKNOWN'' (Some ''ALLOW extra-text'') False"
    using tb by blast
  have r3: "get_action_signature
        \<lparr>p_conditions = [], p_actions = [parse_action ''REQUIRE MFA'', parse_action ''BLOCKED''],
         p_state = ''enabled''\<rparr> = ''GRANT:MFA''"
    using ta s1 by (simp only: append.simps) metis
  have r4: "build_grant_controls [parse_action ''REQUIRE MFA'', parse_action ''BLOCKED'']
        = Some \<lparr>Operator = ''AND'', BuiltInControls = [''mfa'']\<rparr>"
    using ta g1 by (simp only: append.simps) metis
  have r5: "build_session_controls [parse_action ''REQUIRE MFA'', parse_action ''ALLOW extra-text'']
        = no_session_controls"
    using tb c1 by (simp only: append.simps) metis
  show ?thesis
    using a(1) b(1) r1 r2 r3 r4 r5 by blast
qed

section \<open>Path extraction\<close>

lemma extract_by_branches:
  "extract_paths_from_statement (IfStatement ifb elifs elseb) parent =
     branch_paths parent ifb
     @ concat (map (branch_paths parent) elifs)
     @ (case elseb of None \<Rightarrow> [] | Some eb \<Rightarrow> branch_paths parent eb)"
proof -
  have m: "map (\<lambda>else_if_branch.
          case else_if_branch of PolicyBranch cs x y nested \<Rightarrow>
            (case nested of
               Some n \<Rightarrow> extract_paths_from_statement n (parent @ cs)
             | None \<Rightarrow> [leaf_path (parent @ cs) else_if_branch])) elifs
        = map (branch_paths parent) elifs"
    by (rule map_cong) (auto simp: branch_paths_def split: PolicyBranch.splits option.splits)
  show ?thesis
    by (simp add: m) (auto simp: branch_paths_def split: PolicyBranch.splits option.splits)
qed

lemma branch_paths_actions:
  "b_nested_if b = Some n \<Longrightarrow> branch_paths parent (set_actions b acts) = branch_paths parent b"
  by (simp add: branch_paths_def set_actions_def)

lemma extract_prefix:
  "p \<in> set (extract_paths_from_statement stmt acc) \<Longrightarrow> \<exists>rest. p_conditions p = acc @ rest"
proof (induction stmt acc arbitrary: p rule: extract_paths_from_statement.induct)
  case (1 ifb elifs elseb parent)
  then show ?case
    by (fastforce simp: leaf_path_def split: PolicyBranch.splits option.splits)
qed

text \<open>
  C9. For every branch that carries a nested decision, whatever actions it carries
  besides: in each of the three places a branch can stand in, path extraction emits at
  that branch exactly the paths of the nested decision, extracted with the parent
  conditions followed by the branch's own; every one of these paths starts with those
  conditions; and the result is the same when the branch's own actions are replaced by
  any others, so they appear in no emitted path.
\<close>

theorem C9_nested_decision_is_body:
  assumes "b_nested_if b = Some n"
  shows "extract_paths_from_statement (IfStatement b elifs elseb) parent
           = extract_paths_from_statement n (parent @ b_conditions b)
             @ concat (map (branch_paths parent) elifs)
             @ (case elseb of None \<Rightarrow> [] | Some eb \<Rightarrow> branch_paths parent eb)
       \<and> extract_paths_from_statement (IfStatement ifb (pre @ b # post) elseb) parent
           = branch_paths parent ifb
             @ concat (map (branch_paths parent) pre)
             @ extract_paths_from_statement n (parent @ b_conditions b)
             @ concat (map (branch_paths parent) post)
             @ (case elseb of None \<Rightarrow> [] | Some eb \<Rightarrow> branch_paths parent eb)
       \<and> extract_paths_from_statement (IfStatement ifb elifs (Some b)) parent
           = branch_paths parent ifb
             @ concat (map (branch_paths parent) elifs)
             @ extract_paths_from_statement n (parent @ b_conditions b)
       \<and> extract_paths_from_statement (IfStatement (set_actions b acts) elifs elseb) parent
           = extract_paths_from_statement (IfStatement b elifs elseb) parent
       \<and> extract_paths_from_statement (IfStatement ifb (pre @ set_actions b acts # post) elseb) parent
           = extract_paths_from_statement (IfStatement ifb (pre @ b # post) elseb) parent
       \<and> extract_paths_from_statement (IfStatement ifb elifs (Some (set_actions b acts))) parent
           = extract_paths_from_statement (IfStatement ifb elifs (Some b)) parent
       \<and> (\<forall>p \<in> set (extract_paths_from_statement n (parent @ b_conditions b)).
             \<exists>rest. p_conditions p = parent @ b_conditions b @ rest)"
proof -
  have bp: "branch_paths parent b = extract_paths_from_statement n (parent @ b_conditions b)"
    using assms by (simp add: branch_paths_def)
  have sa: "branch_paths parent (set_actions b acts) = branch_paths parent b"
    using assms by (rule branch_paths_actions)
  have pre: "\<forall>p \<in> set (extract_paths_from_statement n (parent @ b_conditions b)).
             \<exists>rest. p_conditions p = parent @ b_conditions b @ rest"
    using extract_prefix [of _ n "parent @ b_conditions b"] by simp
  show ?thesis
    using pre
    by (simp del: extract_paths_from_statement.simps add: extract_by_branches bp sa)
qed

theorem C9_nested_decision_is_body_witness:
  "b_nested_if (PolicyBranch [mkCondition ''platform'' ''is'' ''Windows'' None False] [mkAction ''BLOCK'' None False] ''enabled''
       (Some (IfStatement (PolicyBranch [mkCondition ''platform'' ''is'' ''macOS'' None False] [mkAction ''ALLOW'' None False]
                            ''report-only'' None) [] None)))
     = Some (IfStatement (PolicyBranch [mkCondition ''platform'' ''is'' ''macOS'' None False] [mkAction ''ALLOW'' None False]
                            ''report-only'' None) [] None)
   \<and> extract_paths_from_statement
       (IfStatement
          (PolicyBranch [mkCondition ''platform'' ''is'' ''Windows'' None False] [mkAction ''BLOCK'' None False] ''enabled''
             (Some (IfStatement (PolicyBranch [mkCondition ''platform'' ''is'' ''macOS'' None False] [mkAction ''ALLOW'' None False]
                                  ''report-only'' None) [] None)))
          [] None) []
     = [\<lparr>p_conditions = [mkCondition ''platform'' ''is'' ''Windows'' None False, mkCondition ''platform'' ''is'' ''macOS'' None False],
         p_actions = [mkAction ''ALLOW'' None False], p_state = ''report-only''\<rparr>]"
proof -
  let ?n = "IfStatement (PolicyBranch [mkCondition ''platform'' ''is'' ''macOS'' None False] [mkAction ''ALLOW'' None False]
                            ''report-only'' None) [] None"
  let ?b = "PolicyBranch [mkCondition ''platform'' ''is'' ''Windows'' None False] [mkAction ''BLOCK'' None False] ''enabled'' (Some ?n)"
  have h: "b_nested_if ?b = Some ?n"
    by simp
  have n: "extract_paths_from_statement ?n ([] @ b_conditions ?b)
           = [\<lparr>p_conditions = [mkCondition ''platform'' ''is'' ''Windows'' None False, mkCondition ''platform'' ''is'' ''macOS'' None False],
               p_actions = [mkAction ''ALLOW'' None False], p_state = ''report-only''\<rparr>]"
    by (simp add: leaf_path_def)
  from C9_nested_decision_is_body [OF h, of "[]" None "[]"]
  have "extract_paths_from_statement (IfStatement ?b [] None) []
          = extract_paths_from_statement ?n ([] @ b_conditions ?b)
             @ concat (map (branch_paths []) [])
             @ (case None of None \<Rightarrow> [] | Some eb \<Rightarrow> branch_paths [] eb)"
    by blast
  then have "extract_paths_from_statement (IfStatement ?b [] None) []
          = [\<lparr>p_conditions = [mkCondition ''platform'' ''is'' ''Windows'' None False, mkCondition ''platform'' ''is'' ''macOS'' None False],
               p_actions = [mkAction ''ALLOW'' None False], p_state = ''report-only''\<rparr>]"
    unfolding n by simp
  with h show ?thesis by blast
qed

section \<open>Clustering\<close>

lemma map_of_dict_append:
  "map_of (dict_append d k v) k' =
     (if k' = k then Some ((case map_of d k of None \<Rightarrow> [] | Some vs \<Rightarrow> vs) @ [v])
      else map_of d k')"
  by (induction d k v rule: dict_append.induct) auto

lemma keys_dict_append:
  "map fst (dict_append d k v) = (if k \<in> set (map fst d) then map fst d else map fst d @ [k])"
  by (induction d k v rule: dict_append.induct) auto

lemma distinct_dict_append:
  "distinct (map fst d) \<Longrightarrow> distinct (map fst (dict_append d k v))"
  by (simp add: keys_dict_append)

lemma distinct_group_by:
  "distinct (map fst d) \<Longrightarrow> distinct (map fst (group_by key xs d))"
  unfolding group_by_def
  by (induction xs arbitrary: d) (simp_all add: distinct_dict_append)

lemma map_of_group_by:
  "map_of (group_by key xs d) k =
     (case map_of d k of
        None \<Rightarrow> if filter (\<lambda>x. key x = k) xs = [] then None
                else Some (filter (\<lambda>x. key x = k) xs)
      | Some vs \<Rightarrow> Some (vs @ filter (\<lambda>x. key x = k) xs))"
  unfolding group_by_def
  by (induction xs arbitrary: d) (auto simp: map_of_dict_append split: option.splits)

lemma group_by_member:
  "(k, vs) \<in> set (group_by key xs []) \<longleftrightarrow>
     vs = filter (\<lambda>x. key x = k) xs \<and> vs \<noteq> []"
proof -
  have d: "distinct (map fst (group_by key xs []))"
    by (rule distinct_group_by) simp
  have "(k, vs) \<in> set (group_by key xs []) \<longleftrightarrow> map_of (group_by key xs []) k = Some vs"
    using d by simp
  also have "\<dots> \<longleftrightarrow> vs = filter (\<lambda>x. key x = k) xs \<and> vs \<noteq> []"
    by (auto simp: map_of_group_by)
  finally show ?thesis .
qed

lemma cluster_by_action_group: "cluster_by_action paths = group_by full_signature paths []"
  by (simp add: cluster_by_action_def group_by_def)




subsection \<open>One record for each cluster\<close>









text \<open>
  The condition on the states is needed. The parser takes whatever text follows
  \<open>STATE\<close> as the state, and with a state that holds \<open>|\<close> two paths with different
  signatures and different states can have the same key, here
  \<open>GRANT:A|STATE:x|STATE:y\<close>.
\<close>

lemma cluster_key_collision:
  "same_cluster
     [\<lparr>p_conditions = [], p_actions = [mkAction ''REQUIRE'' (Some ''A'') False],
       p_state = ''x|STATE:y''\<rparr>,
      \<lparr>p_conditions = [], p_actions = [mkAction ''REQUIRE'' (Some ''A|STATE:x'') False],
       p_state = ''y''\<rparr>]
     \<lparr>p_conditions = [], p_actions = [mkAction ''REQUIRE'' (Some ''A'') False],
      p_state = ''x|STATE:y''\<rparr>
     \<lparr>p_conditions = [], p_actions = [mkAction ''REQUIRE'' (Some ''A|STATE:x'') False],
      p_state = ''y''\<rparr>
   \<and> get_action_signature
       \<lparr>p_conditions = [], p_actions = [mkAction ''REQUIRE'' (Some ''A'') False],
        p_state = ''x|STATE:y''\<rparr>
     \<noteq> get_action_signature
       \<lparr>p_conditions = [], p_actions = [mkAction ''REQUIRE'' (Some ''A|STATE:x'') False],
        p_state = ''y''\<rparr>
   \<and> ''x|STATE:y'' \<noteq> ''y''"
  by (simp add: same_cluster_def cluster_by_action_def full_signature_def
        get_action_signature_def sig_step_def mkAction_def truthy_def)

section \<open>Merging the conditions of a cluster\<close>

lemma fold_merge_values:
  "fold merge_values_step cs V = V \<union> (\<Union>c \<in> set cs. literal_values c)"
  by (induction cs arbitrary: V) (auto simp: merge_values_step_def literal_values_def)

lemma split_nonempty: "split sep s \<noteq> []"
  by (subst split.simps) (simp split: option.splits)

lemma literal_values_nonempty: "literal_values c \<noteq> {}"
  by (simp add: literal_values_def split_nonempty del: split.simps)

lemma literal_values_finite: "finite (literal_values c)"
  by (simp add: literal_values_def)

lemma merge_list_capable:
  assumes "t \<in> {''platform'', ''location'', ''client'', ''app''}" "cs \<noteq> []"
  shows "merge_conditions_of_type order t cs =
           (if card (\<Union>c \<in> set cs. literal_values c) > 1
            then [mkCondition t ''is-or''
                    (join ''|'' (sorted_list_of_set (\<Union>c \<in> set cs. literal_values c))) None False]
            else [hd cs])"
  using assms by (simp add: merge_conditions_of_type_def fold_merge_values Let_def)

lemma merge_type:
  assumes "\<forall>c \<in> set cs. c_type c = t"
  shows "\<forall>c \<in> set (merge_conditions_of_type order t cs). c_type c = t"
  using assms
  by (cases cs) (auto simp: merge_conditions_of_type_def Let_def mkCondition_def)

lemma fold_fold_concat:
  "fold (\<lambda>x acc. fold f (g x) acc) xs acc = fold f (concat (map g xs)) acc"
  by (induction xs arbitrary: acc) simp_all

lemma group_conditions_group:
  "group_conditions paths = group_by c_type (concat (map p_conditions paths)) []"
  by (simp add: group_conditions_def group_by_def fold_fold_concat)

lemma filter_concat_groups:
  assumes "distinct (map fst G)"
      and "\<forall>(k, cs) \<in> set G. \<forall>c \<in> set (M k cs). c_type c = k"
  shows "filter (\<lambda>c. c_type c = t) (concat (map (\<lambda>(k, cs). M k cs) G))
           = (case map_of G t of None \<Rightarrow> [] | Some cs \<Rightarrow> M t cs)"
  using assms
proof (induction G)
  case Nil
  then show ?case by simp
next
  case (Cons g G)
  obtain k cs where g: "g = (k, cs)" by (cases g)
  have ty: "\<forall>c \<in> set (M k cs). c_type c = k"
    using Cons.prems(2) g by simp
  have ih: "filter (\<lambda>c. c_type c = t) (concat (map (\<lambda>(k, cs). M k cs) G))
           = (case map_of G t of None \<Rightarrow> [] | Some cs \<Rightarrow> M t cs)"
    using Cons by simp
  show ?case
  proof (cases "k = t")
    case True
    have "map_of G t = None"
      using Cons.prems(1) g True by (simp add: map_of_eq_None_iff)
    moreover have "filter (\<lambda>c. c_type c = t) (M k cs) = M t cs"
      using ty True by simp
    ultimately show ?thesis
      using g True ih by simp
  next
    case False
    have "filter (\<lambda>c. c_type c = t) (M k cs) = []"
      using ty False by (auto simp: filter_empty_conv)
    then show ?thesis
      using g False ih by simp
  qed
qed

lemma merged_of_type:
  "filter (\<lambda>c. c_type c = t) (merge_conditions order paths)
     = merge_conditions_of_type order t (cluster_conditions t paths)"
proof -
  let ?all = "concat (map p_conditions paths)"
  let ?G = "group_by c_type ?all []"
  have d: "distinct (map fst ?G)"
    by (rule distinct_group_by) simp
  have ty: "\<forall>(k, cs) \<in> set ?G. \<forall>c \<in> set (merge_conditions_of_type order k cs). c_type c = k"
  proof (clarify)
    fix k cs c
    assume "(k, cs) \<in> set ?G" "c \<in> set (merge_conditions_of_type order k cs)"
    from this(1) have "\<forall>c \<in> set cs. c_type c = k"
      by (auto simp: group_by_member)
    from merge_type [OF this] \<open>c \<in> set (merge_conditions_of_type order k cs)\<close>
    show "c_type c = k" by blast
  qed
  have "filter (\<lambda>c. c_type c = t) (merge_conditions order paths)
          = (case map_of ?G t of None \<Rightarrow> []
             | Some cs \<Rightarrow> merge_conditions_of_type order t cs)"
    unfolding merge_conditions_def group_conditions_group
    by (rule filter_concat_groups [OF d ty])
  also have "\<dots> = merge_conditions_of_type order t (cluster_conditions t paths)"
    by (simp add: map_of_group_by cluster_conditions_def merge_conditions_of_type_def)
  finally show ?thesis .
qed


text \<open>
  C5. For every cluster and every list-capable kind (\<open>platform\<close>, \<open>location\<close>,
  \<open>client\<close>, \<open>app\<close>) that occurs in it: the merged conditions of that kind are one
  \<open>is-or\<close> Condition whose value is the sorted union of the literal values of all
  paths, joined with \<open>|\<close>, when the union has more than one member, and otherwise
  (the union then has exactly one member) the first condition of that kind in the
  cluster, unchanged.
\<close>

theorem C5_list_capable_union:
  assumes "t \<in> {''platform'', ''location'', ''client'', ''app''}"
      and "cluster_conditions t paths \<noteq> []"
  shows "filter (\<lambda>c. c_type c = t) (merge_conditions order paths)
           = (if card (cluster_values t paths) > 1
              then [mkCondition t ''is-or''
                      (join ''|'' (sorted_list_of_set (cluster_values t paths))) None False]
              else [hd (cluster_conditions t paths)])
       \<and> card (cluster_values t paths) \<ge> 1"
proof -
  have m: "filter (\<lambda>c. c_type c = t) (merge_conditions order paths)
           = (if card (cluster_values t paths) > 1
              then [mkCondition t ''is-or''
                      (join ''|'' (sorted_list_of_set (cluster_values t paths))) None False]
              else [hd (cluster_conditions t paths)])"
    unfolding merged_of_type cluster_values_def
    using assms by (rule merge_list_capable)
  obtain c where c: "c \<in> set (cluster_conditions t paths)"
    using assms(2) by (cases "cluster_conditions t paths") auto
  have "finite (cluster_values t paths)"
    by (simp add: cluster_values_def literal_values_finite)
  moreover have "cluster_values t paths \<noteq> {}"
    using c literal_values_nonempty [of c] by (auto simp: cluster_values_def)
  ultimately have "card (cluster_values t paths) \<ge> 1"
    by (simp add: Suc_le_eq card_gt_0_iff)
  with m show ?thesis by blast
qed

theorem C5_list_capable_union_witness:
  "''platform'' \<in> {''platform'', ''location'', ''client'', ''app''}
   \<and> cluster_conditions ''platform''
        [\<lparr>p_conditions = [mkCondition ''platform'' ''is'' ''Windows'' None False],
          p_actions = [mkAction ''REQUIRE'' (Some ''MFA'') False], p_state = ''enabled''\<rparr>,
         \<lparr>p_conditions = [mkCondition ''platform'' ''is'' ''macOS'' None False],
          p_actions = [mkAction ''REQUIRE'' (Some ''MFA'') False], p_state = ''enabled''\<rparr>] \<noteq> []
   \<and> filter (\<lambda>c. c_type c = ''platform'')
        (merge_conditions sorted_list_of_set
          [\<lparr>p_conditions = [mkCondition ''platform'' ''is'' ''Windows'' None False],
            p_actions = [mkAction ''REQUIRE'' (Some ''MFA'') False], p_state = ''enabled''\<rparr>,
           \<lparr>p_conditions = [mkCondition ''platform'' ''is'' ''macOS'' None False],
            p_actions = [mkAction ''REQUIRE'' (Some ''MFA'') False], p_state = ''enabled''\<rparr>])
      = [mkCondition ''platform'' ''is-or'' ''Windows|macOS'' None False]"
proof -
  let ?paths = "[\<lparr>p_conditions = [mkCondition ''platform'' ''is'' ''Windows'' None False],
          p_actions = [mkAction ''REQUIRE'' (Some ''MFA'') False], p_state = ''enabled''\<rparr>,
         \<lparr>p_conditions = [mkCondition ''platform'' ''is'' ''macOS'' None False],
          p_actions = [mkAction ''REQUIRE'' (Some ''MFA'') False], p_state = ''enabled''\<rparr>]"
  have h1: "''platform'' \<in> {''platform'', ''location'', ''client'', ''app''}"
    by simp
  have cc: "cluster_conditions ''platform'' ?paths
            = [mkCondition ''platform'' ''is'' ''Windows'' None False,
               mkCondition ''platform'' ''is'' ''macOS'' None False]"
    by (simp add: cluster_conditions_def mkCondition_def)
  have h2: "cluster_conditions ''platform'' ?paths \<noteq> []"
    by (simp add: cc)
  have cv: "cluster_values ''platform'' ?paths = {''Windows'', ''macOS''}"
    by (simp add: cluster_values_def cc) (auto simp: literal_values_def mkCondition_def)
  have cd: "card {''Windows'', ''macOS''} = 2"
    by simp
  have so: "sorted_list_of_set {''Windows'', ''macOS''} = [''Windows'', ''macOS'']"
    by code_simp
  have "filter (\<lambda>c. c_type c = ''platform'') (merge_conditions sorted_list_of_set ?paths)
      = [mkCondition ''platform'' ''is-or'' ''Windows|macOS'' None False]"
    using C5_list_capable_union [OF h1 h2, of sorted_list_of_set]
    unfolding cv cd so by simp
  with h1 h2 show ?thesis by blast
qed

section \<open>Conditions that match no rule\<close>

lemma substitute_absent:
  "\<forall>v \<in> set vars. \<not> contains (fst v) text \<Longrightarrow> substitute vars text = text"
  unfolding substitute_def
  by (induction vars) (auto simp add: substitute_step_def simp del: replace.simps split: prod.splits)

lemma conditions_loop_step:
  assumes "is_condition_line base_indent P"
  shows "conditions_loop base_indent branch P =
           conditions_loop base_indent
             (add_condition branch (fst (parse_condition (variables P) (current_line_stripped P))))
             (P\<lparr>log := log P @ snd (parse_condition (variables P) (current_line_stripped P)),
                line_number := line_number P + 1\<rparr>)"
  using assms
  by (subst conditions_loop.simps) (auto simp add: is_condition_line_def Let_def simp del: conditions_loop.simps)

text \<open>
  C8, as the code has it. For every condition text that matches no rule of the grammar
  after the variables are substituted, \<open>_parse_condition\<close> returns a Condition of kind
  \<open>unknown\<close> whose value is the text after substitution (the text of the line itself
  when no declared variable name occurs in it) and prints one warning; and when the
  loop over the conditions of a branch meets such a line, it appends this Condition
  and goes on with the next line.
\<close>

theorem C8_unknown_condition:
  assumes "grammar (substitute vars text) = None"
  shows "parse_condition vars text
           = (unknown_condition (substitute vars text), [warning (substitute vars text)])
       \<and> ((\<forall>v \<in> set vars. \<not> contains (fst v) text) \<longrightarrow>
            parse_condition vars text = (unknown_condition text, [warning text]))
       \<and> (variables P = vars \<and> current_line_stripped P = text \<and> is_condition_line base_indent P \<longrightarrow>
            conditions_loop base_indent branch P =
              conditions_loop base_indent
                (add_condition branch (unknown_condition (substitute vars text)))
                (P\<lparr>log := log P @ [warning (substitute vars text)],
                   line_number := line_number P + 1\<rparr>))"
proof -
  have a: "parse_condition vars text
           = (unknown_condition (substitute vars text), [warning (substitute vars text)])"
    using assms by (simp add: parse_condition_def unknown_condition_def warning_def Let_def)
  have b: "(\<forall>v \<in> set vars. \<not> contains (fst v) text) \<longrightarrow>
            parse_condition vars text = (unknown_condition text, [warning text])"
    using a substitute_absent [of vars "text"] by auto
  have c: "variables P = vars \<and> current_line_stripped P = text \<and> is_condition_line base_indent P \<longrightarrow>
            conditions_loop base_indent branch P =
              conditions_loop base_indent
                (add_condition branch (unknown_condition (substitute vars text)))
                (P\<lparr>log := log P @ [warning (substitute vars text)],
                   line_number := line_number P + 1\<rparr>)"
    using conditions_loop_step [of base_indent P branch] a
    by (auto simp del: conditions_loop.simps)
  from a b c show ?thesis by blast
qed


lemma ex_sub: "substitute ex_vars ''member of G'' = ''member of '' @ [dq] @ ''Grp'' @ [dq] @ '' [g1]''"
  by (simp add: ex_vars_def substitute_def substitute_step_def startswith_def)

lemma ex_grammar: "grammar (''member of '' @ [dq] @ ''Grp'' @ [dq] @ '' [g1]'') = None"
  by code_simp


lemma ex_vars_declared:
  "variables (parse_variable (new_parser\<lparr>lines := [''VAR G = '' @ [dq] @ ''Grp'' @ [dq] @ '' [g1]'']\<rparr>))
     = ex_vars"
  by code_simp

lemma ex_sub2: "substitute ex_vars ''device NOT is Compliant'' = ''device NOT is Compliant''"
  by (simp add: ex_vars_def substitute_def substitute_step_def startswith_def)

lemma ex_grammar2: "grammar ''device NOT is Compliant'' = None"
  by code_simp

theorem C8_unknown_condition_witness:
  "grammar (substitute ex_vars ''member of G'') = None
   \<and> parse_condition ex_vars ''member of G''
       = (unknown_condition (''member of '' @ [dq] @ ''Grp'' @ [dq] @ '' [g1]''),
          [warning (''member of '' @ [dq] @ ''Grp'' @ [dq] @ '' [g1]'')])
   \<and> grammar (substitute ex_vars ''device NOT is Compliant'') = None
   \<and> \<not> contains ''G'' ''device NOT is Compliant''
   \<and> parse_condition ex_vars ''device NOT is Compliant''
       = (unknown_condition ''device NOT is Compliant'', [warning ''device NOT is Compliant''])
   \<and> is_condition_line 0
        \<lparr>variables = ex_vars, line_number = 0, lines = [''    member of G''], log = []\<rparr>
   \<and> conditions_loop 0 empty_branch
        \<lparr>variables = ex_vars, line_number = 0, lines = [''    member of G''], log = []\<rparr>
       = (add_condition empty_branch
            (unknown_condition (''member of '' @ [dq] @ ''Grp'' @ [dq] @ '' [g1]'')),
          \<lparr>variables = ex_vars, line_number = 1, lines = [''    member of G''],
           log = [warning (''member of '' @ [dq] @ ''Grp'' @ [dq] @ '' [g1]'')]\<rparr>)"
proof -
  let ?P = "\<lparr>variables = ex_vars, line_number = 0, lines = [''    member of G''], log = []\<rparr>"
  let ?t = "''member of '' @ [dq] @ ''Grp'' @ [dq] @ '' [g1]''"
  have g1: "grammar (substitute ex_vars ''member of G'') = None"
    unfolding ex_sub by (rule ex_grammar)
  have g2: "grammar (substitute ex_vars ''device NOT is Compliant'') = None"
    unfolding ex_sub2 by (rule ex_grammar2)
  have ab: "\<forall>v \<in> set ex_vars. \<not> contains (fst v) ''device NOT is Compliant''"
    by (simp add: ex_vars_def startswith_def)
  have st: "current_line_stripped ?P = ''member of G''"
    by (simp add: current_line_stripped_def strip_def isspace_def)
  have cl: "is_condition_line 0 ?P"
    by (simp add: is_condition_line_def st startswith_def stop_words_def)
  note t1 = C8_unknown_condition [OF g1, of ?P 0 empty_branch]
  note t2 = C8_unknown_condition [OF g2, of ?P 0 empty_branch]
  have r1: "parse_condition ex_vars ''member of G'' = (unknown_condition ?t, [warning ?t])"
    using t1 unfolding ex_sub by blast
  have r2: "parse_condition ex_vars ''device NOT is Compliant''
       = (unknown_condition ''device NOT is Compliant'', [warning ''device NOT is Compliant''])"
    using t2 ab by blast
  have "conditions_loop 0 empty_branch ?P
          = conditions_loop 0 (add_condition empty_branch (unknown_condition ?t))
              (?P\<lparr>log := log ?P @ [warning ?t], line_number := line_number ?P + 1\<rparr>)"
    using t1 st cl unfolding ex_sub by simp
  also have "\<dots> = (add_condition empty_branch (unknown_condition ?t),
          \<lparr>variables = ex_vars, line_number = 1, lines = [''    member of G''],
           log = [warning ?t]\<rparr>)"
    by (subst conditions_loop.simps) simp
  finally have r3: "conditions_loop 0 empty_branch ?P
       = (add_condition empty_branch (unknown_condition ?t),
          \<lparr>variables = ex_vars, line_number = 1, lines = [''    member of G''],
           log = [warning ?t]\<rparr>)" .
  have ng: "\<not> contains ''G'' ''device NOT is Compliant''"
    by (simp add: startswith_def)
  from g1 r1 g2 ng r2 cl r3 show ?thesis by blast
qed

text \<open>
  The value is not always the raw text of the line: with \<open>G\<close> declared, the line
  \<open>member of G\<close> gives the value \<open>member of "Grp" [g1]\<close>.
\<close>

theorem C8_counterexample:
  "grammar (substitute ex_vars ''member of G'') = None
   \<and> c_type (fst (parse_condition ex_vars ''member of G'')) = ''unknown''
   \<and> c_value (fst (parse_condition ex_vars ''member of G''))
       = ''member of '' @ [dq] @ ''Grp'' @ [dq] @ '' [g1]''
   \<and> c_value (fst (parse_condition ex_vars ''member of G'')) \<noteq> ''member of G''"
proof -
  have g1: "grammar (substitute ex_vars ''member of G'') = None"
    unfolding ex_sub by (rule ex_grammar)
  then have "parse_condition ex_vars ''member of G''
       = (mkCondition ''unknown'' ''is'' (''member of '' @ [dq] @ ''Grp'' @ [dq] @ '' [g1]'') None False,
          [''Warning: Could not parse condition: '' @ ''member of '' @ [dq] @ ''Grp'' @ [dq] @ '' [g1]''])"
    by (simp add: parse_condition_def Let_def ex_sub)
  with g1 show ?thesis
    by (simp add: mkCondition_def)
qed

section \<open>ELSE IF branches\<close>

text \<open>
  C1 says that a line \<open>ELSE IF <condition>\<close> at the indentation of the enclosing \<open>IF\<close>
  starts a further branch of the decision, which takes the actions that follow. The
  code does not do that: the loop of \<open>_parse_branch_body\<close> compares the stripped line
  with \<open>'ELSE IF '\<close> (with a space at its end), which no stripped line equals, so it
  skips the \<open>ELSE IF\<close> line and the \<open>STATE\<close> line after it and files the actions of
  the else-if branch under the \<open>IF\<close> branch. The decision below is parsed into one
  branch with both actions and no else-if branch.
\<close>

theorem C1_else_if_swallowed:
  "map_option fst (parse_file 20 new_parser (join [CHR 0x0A] ex_else_if))
     = Some [IfStatement
               (PolicyBranch [mkCondition ''platform'' ''is'' ''Windows'' None False]
                             [mkAction ''BLOCK'' None False,
                              mkAction ''REQUIRE'' (Some ''MFA'') False]
                             ''enabled'' None)
               [] None]"
  by code_simp


section \<open>Variables and files\<close>

lemma sbl_refl: "same_but_log P P"
  by (simp add: same_but_log_def)







































section \<open>Optimizing twice\<close>

lemma keys_group_by:
  "map fst (group_by key xs d)
     = fold (\<lambda>k seen. if k \<in> set seen then seen else seen @ [k]) (map key xs) (map fst d)"
  unfolding group_by_def
  by (induction xs arbitrary: d) (simp_all add: keys_dict_append)

lemma cluster_keys_first_seen:
  "map fst (cluster_by_action paths) = first_seen (map full_signature paths)"
  by (simp add: cluster_by_action_group keys_group_by first_seen_def)

text \<open>
  C6 says that two runs of the optimizer on the same list of paths give identical
  lists of records. The names are indeed \<open>Generated-Policy-1\<close>, \<open>-2\<close>, ... in the order
  in which the clusters are first seen, whatever the iteration order of sets
  (\<open>optimize_names\<close>, \<open>cluster_keys_first_seen\<close>). But \<open>_map_client_types\<close> returns
  \<open>list(set(...))\<close> and \<open>_merge_conditions_of_type\<close> iterates over the set of group
  identifiers, unsorted both, so the order of \<open>ClientAppTypes\<close> and of \<open>IncludeGroups\<close>
  follows the iteration order of the set, and two runs with different orders give
  different records.
\<close>

theorem C6_depends_on_set_order:
  "map (\<lambda>p. ClientAppTypes (Conditions p)) (optimize order_up ex_client_paths)
     = [[''browser'', ''other'']]
   \<and> map (\<lambda>p. ClientAppTypes (Conditions p)) (optimize order_down ex_client_paths)
     = [[''other'', ''browser'']]
   \<and> map (\<lambda>p. IncludeGroups (Users (Conditions p))) (optimize order_up ex_group_paths)
     = [[Some ''g1'', Some ''g2'']]
   \<and> map (\<lambda>p. IncludeGroups (Users (Conditions p))) (optimize order_down ex_group_paths)
     = [[Some ''g2'', Some ''g1'']]
   \<and> optimize order_up ex_client_paths \<noteq> optimize order_down ex_client_paths
   \<and> map DisplayName (optimize order_up ex_client_paths) = [''Generated-Policy-1'']
   \<and> map DisplayName (optimize order_down ex_client_paths) = [''Generated-Policy-1'']"
  by code_simp

end
